theory Spec2Isabelle
  imports Main "HOL-Library.Word" "HOL-Library.Sublist"
begin

section \<open>Windows result codes and interface identifiers\<close>

text \<open>
  The manager of \<^verbatim>\<open>windows/audio_ducking_manager.cpp\<close> talks to the Windows core audio
  API through COM. An \<^verbatim>\<open>HRESULT\<close> is a signed 32-bit value, \<^verbatim>\<open>DWORD\<close> and \<^verbatim>\<open>ULONG\<close> are
  unsigned 32-bit values, an interface identifier is a 128-bit GUID.
\<close>

type_synonym HRESULT = "32 word"
type_synonym DWORD = "32 word"
type_synonym ULONG = "32 word"
type_synonym IID = "128 word"

text \<open>
  Modelled from the spec: the macros, result codes and interface identifiers of the
  Windows SDK headers, which the repository includes and does not contain. \<^verbatim>\<open>SUCCEEDED\<close>
  and \<^verbatim>\<open>FAILED\<close> test the sign of an \<^verbatim>\<open>HRESULT\<close>. The spec calls \<^verbatim>\<open>E_NOINTERFACE\<close> "not
  supported" and \<^verbatim>\<open>RPC_E_CHANGED_MODE\<close> "already initialized with a different model"; the
  values are the SDK's.
\<close>

definition SUCCEEDED :: "HRESULT \<Rightarrow> bool" where
  "SUCCEEDED hr = (0 \<le> sint hr)"

definition FAILED :: "HRESULT \<Rightarrow> bool" where
  "FAILED hr = (sint hr < 0)"

definition S_OK :: HRESULT where
  "S_OK = 0"

definition E_NOINTERFACE :: HRESULT where
  "E_NOINTERFACE = 0x80004002"

definition E_POINTER :: HRESULT where
  "E_POINTER = 0x80004003"

definition E_FAIL :: HRESULT where
  "E_FAIL = 0x80004005"

definition RPC_E_CHANGED_MODE :: HRESULT where
  "RPC_E_CHANGED_MODE = 0x80010106"

definition IID_IUnknown :: IID where
  "IID_IUnknown = 0x0000000000000000C000000000000046"

definition IID_IAudioSessionNotification :: IID where
  "IID_IAudioSessionNotification = 0x641DD20B4D4149CCABA3174B9477BB08"

section \<open>The notifier object\<close>

text \<open>
  \<^verbatim>\<open>class SessionNotifier\<close> holds one field, the atomic reference count
  (\<^verbatim>\<open>ref_count_\<close> in the source; the model's field names drop the trailing underscore). The constructor
  sets it to one. \<^verbatim>\<open>AddRef\<close> is \<^verbatim>\<open>return ++ref_count_\<close>; \<^verbatim>\<open>Release\<close> decrements, deletes
  the object when the new count is zero and returns the new count. In the model
  \<open>Release\<close> returns the object that is left: \<open>None\<close> once it has been deleted.
  The count is a \<^verbatim>\<open>ULONG\<close>, so both operations wrap around.
\<close>

record SessionNotifier =
  ref_count :: ULONG

definition SessionNotifier_new :: SessionNotifier where
  "SessionNotifier_new = \<lparr>ref_count = 1\<rparr>"

definition AddRef :: "SessionNotifier \<Rightarrow> ULONG \<times> SessionNotifier" where
  "AddRef n = (let r = ref_count n + 1 in (r, n\<lparr>ref_count := r\<rparr>))"

definition Release :: "SessionNotifier \<Rightarrow> ULONG \<times> SessionNotifier option" where
  "Release n =
     (let r = ref_count n - 1
      in (r, if r = 0 then None else Some (n\<lparr>ref_count := r\<rparr>)))"

text \<open>
  \<^verbatim>\<open>QueryInterface(riid, ppv)\<close>. The argument \<open>ppv\<close> is \<open>None\<close> for a null \<^verbatim>\<open>void**\<close> and
  \<open>Some v\<close> for a location that holds the interface pointer \<open>v\<close> (itself \<open>None\<close> when
  null); \<open>this\<close> is the address of the notifier. The result is the return code, the
  location after the call and the notifier after the call.
\<close>

definition QueryInterface ::
  "nat \<Rightarrow> SessionNotifier \<Rightarrow> IID \<Rightarrow> nat option option
     \<Rightarrow> HRESULT \<times> nat option option \<times> SessionNotifier" where
  "QueryInterface this n riid ppv =
     (case ppv of
        None \<Rightarrow> (E_POINTER, None, n)
      | Some _ \<Rightarrow>
          if riid = IID_IUnknown \<or> riid = IID_IAudioSessionNotification
          then (S_OK, Some (Some this), snd (AddRef n))
          else (E_NOINTERFACE, Some None, n))"

text \<open>
  A sequence of reference operations on one notifier. The result is \<open>None\<close> as soon as
  a release has deleted the object; what is done to a deleted object does not bring it
  back.
\<close>

datatype ref_op = Retain | Drop

fun lifetime :: "ref_op list \<Rightarrow> SessionNotifier \<Rightarrow> SessionNotifier option" where
  "lifetime [] n = Some n"
| "lifetime (Retain # ops) n = lifetime ops (snd (AddRef n))"
| "lifetime (Drop # ops) n =
     (case snd (Release n) of None \<Rightarrow> None | Some n' \<Rightarrow> lifetime ops n')"

text \<open>The references outstanding after a sequence that starts with \<open>c\<close> of them.\<close>

fun outstanding :: "int \<Rightarrow> ref_op list \<Rightarrow> int" where
  "outstanding c [] = c"
| "outstanding c (Retain # ops) = outstanding (c + 1) ops"
| "outstanding c (Drop # ops) = outstanding (c - 1) ops"

section \<open>The platform, as the manager sees it\<close>

text \<open>
  The audio subsystem is not part of the repository. One pass of the manager walks a tree
  of COM objects (device enumerator, device collection, device, session manager, session
  enumerator, session control, its \<^verbatim>\<open>IAudioSessionControl2\<close>) and calls each method once
  per object, so the platform is given as that tree: every node records what its methods
  answer, the return code and the value left in the out-parameter, separately, as the
  code tests them separately. A pointer is an \<open>option\<close>, \<open>None\<close> being null. Identifiers
  stand for object identity.
\<close>

record IAudioSessionControl2 =
  c2_id :: nat
  GetProcessId_hr :: HRESULT
  GetProcessId_pid :: DWORD
  SetDuckingPreference_hr :: HRESULT

record IAudioSessionControl =
  ctl_id :: nat
  QueryInterface_hr :: HRESULT
  QueryInterface_out :: "IAudioSessionControl2 option"

record IAudioSessionEnumerator =
  enum_id :: nat
  GetCount_hr :: HRESULT
  GetCount_out :: int
  GetSession :: "nat \<Rightarrow> HRESULT \<times> IAudioSessionControl option"

text \<open>
  \<open>RegisterSessionNotification_refs\<close> is the number of references the platform takes on
  the notifier while it registers it, by calling the notifier's \<^verbatim>\<open>AddRef\<close>.
\<close>

record IAudioSessionManager2 =
  mgr_id :: nat
  GetSessionEnumerator_hr :: HRESULT
  GetSessionEnumerator_out :: "IAudioSessionEnumerator option"
  RegisterSessionNotification_hr :: HRESULT
  RegisterSessionNotification_refs :: nat

record IMMDevice =
  dev_id :: nat
  Activate_hr :: HRESULT
  Activate_out :: "IAudioSessionManager2 option"

text \<open>
  The return code of the collection's \<^verbatim>\<open>GetCount\<close> is ignored by the code; \<open>GetCount_devices\<close>
  is the value of \<^verbatim>\<open>count\<close> after the call.
\<close>

record IMMDeviceCollection =
  GetCount_devices :: nat
  Item :: "nat \<Rightarrow> HRESULT \<times> IMMDevice option"

record IMMDeviceEnumerator =
  EnumAudioEndpoints_hr :: HRESULT
  EnumAudioEndpoints_out :: "IMMDeviceCollection option"

record platform =
  CoInitializeEx_hr :: HRESULT
  CoCreateInstance_hr :: HRESULT
  CoCreateInstance_out :: "IMMDeviceEnumerator option"
  GetCurrentProcessId :: DWORD

section \<open>The manager and what it does to the world\<close>

datatype handle =
    H_DeviceEnumerator
  | H_DeviceCollection
  | H_Device nat
  | H_SessionManager nat
  | H_SessionEnumerator nat
  | H_SessionControl nat
  | H_SessionControl2 nat
  | H_Notifier nat

datatype call =
    Call_CoInitializeEx
  | Call_CoUninitialize
  | Call_CoCreateInstance
  | Call_EnumAudioEndpoints
  | Call_GetCount_devices
  | Call_Item nat
  | Call_Activate nat
  | Call_GetSessionEnumerator nat
  | Call_GetCount_sessions nat
  | Call_GetSession nat nat
  | Call_QueryInterface nat
  | Call_GetProcessId nat
  | Call_SetDuckingPreference nat bool
  | Call_RegisterSessionNotification nat nat
  | Call_UnregisterSessionNotification nat nat
  | Call_AddRef handle
  | Call_Release handle

text \<open>
  \<^verbatim>\<open>struct Registration\<close>: two pointers, a session manager of the platform (by its
  identifier) and a notifier (by its address).
\<close>

record Registration =
  manager2 :: "nat option"
  notifier :: "nat option"

text \<open>
  The state: the two fields of \<^verbatim>\<open>AudioDuckingManager\<close> (the mutex is held for the whole
  of \<^verbatim>\<open>Initialize\<close> and of the destructor and is not modelled), the notifiers allocated
  with \<^verbatim>\<open>new\<close> and not yet deleted, the next address \<^verbatim>\<open>new\<close> hands out, the ducking
  preference the platform holds for each session, and the calls made so far, in order.
\<close>

record system =
  com_initialized :: bool
  registrations :: "Registration list"
  notifiers :: "nat \<rightharpoonup> SessionNotifier"
  next_notifier :: nat
  ducking_pref :: "nat \<Rightarrow> bool"
  calls :: "call list"

definition AudioDuckingManager_new :: system where
  "AudioDuckingManager_new =
     \<lparr>com_initialized = False, registrations = [], notifiers = Map.empty,
      next_notifier = 0, ducking_pref = (\<lambda>_. False), calls = []\<rparr>"

definition call :: "call \<Rightarrow> system \<Rightarrow> system" where
  "call c s = s\<lparr>calls := calls s @ [c]\<rparr>"

text \<open>\<^verbatim>\<open>SafeRelease\<close> on a handle of the platform: a release unless the pointer is null.\<close>

definition SafeRelease :: "handle option \<Rightarrow> system \<Rightarrow> system" where
  "SafeRelease pp s = (case pp of None \<Rightarrow> s | Some h \<Rightarrow> call (Call_Release h) s)"

text \<open>
  \<^verbatim>\<open>control2->SetDuckingPreference(TRUE)\<close>; the return code is ignored. The platform
  stores the preference when it reports success.
\<close>

definition SetDuckingPreference :: "IAudioSessionControl2 \<Rightarrow> bool \<Rightarrow> system \<Rightarrow> system" where
  "SetDuckingPreference c2 b s =
     (let s = call (Call_SetDuckingPreference (c2_id c2) b) s
      in if SUCCEEDED (SetDuckingPreference_hr c2)
         then s\<lparr>ducking_pref := (ducking_pref s)(c2_id c2 := b)\<rparr>
         else s)"

subsection \<open>The notification callback\<close>

text \<open>
  \<^verbatim>\<open>SessionNotifier::OnSessionCreated\<close>. It tests only the return code of
  \<^verbatim>\<open>QueryInterface\<close> before it calls \<^verbatim>\<open>control2->GetProcessId\<close>: when the query reports
  success and leaves the pointer null, the call goes through a null pointer, and the
  model returns \<open>None\<close>.
\<close>

definition OnSessionCreated ::
  "DWORD \<Rightarrow> IAudioSessionControl option \<Rightarrow> system \<Rightarrow> (HRESULT \<times> system) option" where
  "OnSessionCreated current_pid new_session s =
     (case new_session of
        None \<Rightarrow> Some (S_OK, s)
      | Some c \<Rightarrow>
          (let s = call (Call_QueryInterface (ctl_id c)) s;
               control2 = QueryInterface_out c
           in if SUCCEEDED (QueryInterface_hr c)
              then (case control2 of
                      None \<Rightarrow> None
                    | Some c2 \<Rightarrow>
                        (let s = call (Call_GetProcessId (c2_id c2)) s;
                             s = (if SUCCEEDED (GetProcessId_hr c2)
                                  then (if GetProcessId_pid c2 = current_pid
                                        then SetDuckingPreference c2 True s
                                        else s)
                                  else s)
                         in Some (S_OK, SafeRelease (Some (H_SessionControl2 (c2_id c2))) s)))
              else Some (S_OK, SafeRelease (map_option (\<lambda>c2. H_SessionControl2 (c2_id c2)) control2) s)))"

subsection \<open>The synchronous pass\<close>

text \<open>The body of the loop of \<^verbatim>\<open>ApplyOptOutToExistingSessions\<close>, for index \<open>i\<close>.\<close>

definition apply_session :: "DWORD \<Rightarrow> IAudioSessionEnumerator \<Rightarrow> nat \<Rightarrow> system \<Rightarrow> system" where
  "apply_session my_pid enumerator i s =
     (let (hr, control) = GetSession enumerator i;
          s = call (Call_GetSession (enum_id enumerator) i) s;
          s = (case control of
                 None \<Rightarrow> s
               | Some c \<Rightarrow>
                   if SUCCEEDED hr
                   then (let s = call (Call_QueryInterface (ctl_id c)) s;
                             control2 = QueryInterface_out c;
                             s = (case control2 of
                                    None \<Rightarrow> s
                                  | Some c2 \<Rightarrow>
                                      if SUCCEEDED (QueryInterface_hr c)
                                      then (let s = call (Call_GetProcessId (c2_id c2)) s
                                            in if SUCCEEDED (GetProcessId_hr c2)
                                                  \<and> GetProcessId_pid c2 = my_pid
                                               then SetDuckingPreference c2 True s
                                               else s)
                                      else s)
                         in SafeRelease (map_option (\<lambda>c2. H_SessionControl2 (c2_id c2)) control2) s)
                   else s)
      in SafeRelease (map_option (\<lambda>c. H_SessionControl (ctl_id c)) control) s)"

definition ApplyOptOutToExistingSessions ::
  "DWORD \<Rightarrow> IAudioSessionManager2 option \<Rightarrow> system \<Rightarrow> system" where
  "ApplyOptOutToExistingSessions my_pid manager2' s =
     (case manager2' of
        None \<Rightarrow> s
      | Some m \<Rightarrow>
          (let s = call (Call_GetSessionEnumerator (mgr_id m)) s;
               enumerator = GetSessionEnumerator_out m
           in case enumerator of
                None \<Rightarrow> s
              | Some e \<Rightarrow>
                  if FAILED (GetSessionEnumerator_hr m)
                  then SafeRelease (Some (H_SessionEnumerator (enum_id e))) s
                  else (let s = call (Call_GetCount_sessions (enum_id e)) s
                        in if FAILED (GetCount_hr e)
                           then SafeRelease (Some (H_SessionEnumerator (enum_id e))) s
                           else (let s = fold (apply_session my_pid e) [0..<nat (GetCount_out e)] s
                                 in SafeRelease (Some (H_SessionEnumerator (enum_id e))) s))))"

subsection \<open>Registering for new sessions\<close>

text \<open>
  \<^verbatim>\<open>RegisterForNewSessions\<close>: \<^verbatim>\<open>new SessionNotifier()\<close> takes the next address; the
  platform's \<^verbatim>\<open>RegisterSessionNotification\<close> takes its references on the notifier and
  answers; on success the manager is retained and the pair recorded, otherwise the
  notifier is released.
\<close>

definition RegisterForNewSessions :: "IAudioSessionManager2 option \<Rightarrow> system \<Rightarrow> system" where
  "RegisterForNewSessions manager2' s =
     (case manager2' of
        None \<Rightarrow> s
      | Some m \<Rightarrow>
          (let a = next_notifier s;
               s = s\<lparr>next_notifier := Suc a\<rparr>;
               s = call (Call_RegisterSessionNotification (mgr_id m) a) s;
               n = ((\<lambda>n. snd (AddRef n)) ^^ RegisterSessionNotification_refs m) SessionNotifier_new
           in if SUCCEEDED (RegisterSessionNotification_hr m)
              then (let s = call (Call_AddRef (H_SessionManager (mgr_id m))) s;
                        reg = \<lparr>manager2 = Some (mgr_id m), notifier = Some a\<rparr>
                    in s\<lparr>notifiers := (notifiers s)(a \<mapsto> n),
                         registrations := registrations s @ [reg]\<rparr>)
              else (let s = call (Call_Release (H_Notifier a)) s
                    in s\<lparr>notifiers := (notifiers s)(a := snd (Release n))\<rparr>)))"

subsection \<open>The pass over the render devices\<close>

definition CreateSessionManagerForDevice ::
  "IMMDevice option \<Rightarrow> system \<Rightarrow> IAudioSessionManager2 option \<times> system" where
  "CreateSessionManagerForDevice device s =
     (case device of
        None \<Rightarrow> (None, s)
      | Some d \<Rightarrow>
          (let s = call (Call_Activate (dev_id d)) s;
               manager2' = Activate_out d
           in if FAILED (Activate_hr d)
              then (None, SafeRelease (map_option (\<lambda>m. H_SessionManager (mgr_id m)) manager2') s)
              else (manager2', s)))"

text \<open>The body of the loop of \<^verbatim>\<open>SetupForAllRenderDevices\<close>, for index \<open>i\<close>.\<close>

definition setup_device :: "DWORD \<Rightarrow> IMMDeviceCollection \<Rightarrow> nat \<Rightarrow> system \<Rightarrow> system" where
  "setup_device my_pid collection i s =
     (let (hr, device) = Item collection i;
          s = call (Call_Item i) s;
          s = (if SUCCEEDED hr \<and> device \<noteq> None
               then (let (manager2', s) = CreateSessionManagerForDevice device s
                     in if manager2' \<noteq> None
                        then RegisterForNewSessions manager2'
                               (ApplyOptOutToExistingSessions my_pid manager2' s)
                        else s)
               else s)
      in SafeRelease (map_option (\<lambda>d. H_Device (dev_id d)) device) s)"

definition SetupForAllRenderDevices :: "platform \<Rightarrow> system \<Rightarrow> system" where
  "SetupForAllRenderDevices p s =
     (let s = call Call_CoCreateInstance s;
          enumerator = CoCreateInstance_out p
      in case enumerator of
           None \<Rightarrow> s
         | Some e \<Rightarrow>
             if FAILED (CoCreateInstance_hr p)
             then SafeRelease (Some H_DeviceEnumerator) s
             else (let s = call Call_EnumAudioEndpoints s;
                       collection = EnumAudioEndpoints_out e
                   in case collection of
                        None \<Rightarrow> SafeRelease (Some H_DeviceEnumerator) s
                      | Some c \<Rightarrow>
                          if FAILED (EnumAudioEndpoints_hr e)
                          then SafeRelease (Some H_DeviceEnumerator)
                                 (SafeRelease (Some H_DeviceCollection) s)
                          else (let s = call Call_GetCount_devices s;
                                    s = fold (setup_device (GetCurrentProcessId p) c)
                                          [0..<GetCount_devices c] s
                                in SafeRelease (Some H_DeviceEnumerator)
                                     (SafeRelease (Some H_DeviceCollection) s))))"

definition Initialize :: "platform \<Rightarrow> system \<Rightarrow> system" where
  "Initialize p s =
     (let s = (if \<not> com_initialized s
               then (let hr = CoInitializeEx_hr p;
                         s = call Call_CoInitializeEx s
                     in if SUCCEEDED hr then s\<lparr>com_initialized := True\<rparr>
                        else if hr = RPC_E_CHANGED_MODE then s
                        else s)
               else s)
      in SetupForAllRenderDevices p s)"

subsection \<open>The destructor\<close>

text \<open>
  \<^verbatim>\<open>SafeRelease(&r.notifier)\<close> runs the notifier's own \<^verbatim>\<open>Release\<close>. A notifier that is
  no longer allocated cannot be called: the result is \<open>None\<close>.
\<close>

definition SafeRelease_notifier :: "nat option \<Rightarrow> system \<Rightarrow> system option" where
  "SafeRelease_notifier pp s =
     (case pp of
        None \<Rightarrow> Some s
      | Some a \<Rightarrow>
          (case notifiers s a of
             None \<Rightarrow> None
           | Some n \<Rightarrow>
               Some ((call (Call_Release (H_Notifier a)) s)
                       \<lparr>notifiers := (notifiers s)(a := snd (Release n))\<rparr>)))"

text \<open>The loop of the destructor over \<^verbatim>\<open>registrations_\<close>.\<close>

fun release_registrations :: "Registration list \<Rightarrow> system \<Rightarrow> system option" where
  "release_registrations [] s = Some s"
| "release_registrations (r # rs) s =
     (let s = (case (manager2 r, notifier r) of
                 (Some m, Some a) \<Rightarrow> call (Call_UnregisterSessionNotification m a) s
               | _ \<Rightarrow> s)
      in case SafeRelease_notifier (notifier r) s of
           None \<Rightarrow> None
         | Some s \<Rightarrow>
             release_registrations rs
               (SafeRelease (map_option H_SessionManager (manager2 r)) s))"

definition AudioDuckingManager_destroy :: "system \<Rightarrow> system option" where
  "AudioDuckingManager_destroy s =
     (case release_registrations (registrations s) s of
        None \<Rightarrow> None
      | Some s \<Rightarrow>
          (let s = s\<lparr>registrations := []\<rparr>
           in Some (if com_initialized s
                    then (call Call_CoUninitialize s)\<lparr>com_initialized := False\<rparr>
                    else s)))"

section \<open>What the platform owes the callback\<close>

text \<open>
  COM's rule for \<^verbatim>\<open>QueryInterface\<close>: a call that reports success has stored a non-null
  interface pointer. The synchronous pass does not rely on it (it tests the pointer as
  well); the callback does.
\<close>

definition QueryInterface_contract :: "IAudioSessionControl \<Rightarrow> bool" where
  "QueryInterface_contract c =
     (SUCCEEDED (QueryInterface_hr c) \<longrightarrow> QueryInterface_out c \<noteq> None)"

section \<open>What a pass does, read off the platform\<close>

text \<open>
  The functions of this section do not change any state. They name what the theorems
  talk about: which calls of a log set a ducking preference, which process id the code
  reads for a session, which sessions and session managers a pass reaches.
\<close>

text \<open>
  The \<^verbatim>\<open>SetDuckingPreference\<close> calls of a log, in order: the session and the value.
\<close>

fun duck_call :: "call \<Rightarrow> (nat \<times> bool) list" where
  "duck_call (Call_SetDuckingPreference x b) = [(x, b)]"
| "duck_call _ = []"

definition duck_calls :: "call list \<Rightarrow> (nat \<times> bool) list" where
  "duck_calls cs = concat (map duck_call cs)"

text \<open>
  The owning process id of a session as the code reads it: the query for
  \<^verbatim>\<open>IAudioSessionControl2\<close> and \<^verbatim>\<open>GetProcessId\<close> both succeed. \<open>None\<close> when it cannot be read.
\<close>

definition pid_read :: "IAudioSessionControl \<Rightarrow> DWORD option" where
  "pid_read c =
     (case QueryInterface_out c of
        None \<Rightarrow> None
      | Some c2 \<Rightarrow>
          if SUCCEEDED (QueryInterface_hr c) \<and> SUCCEEDED (GetProcessId_hr c2)
          then Some (GetProcessId_pid c2) else None)"

text \<open>
  Of a list of sessions, the \<^verbatim>\<open>IAudioSessionControl2\<close> objects of those whose process
  id is read and equals \<open>my_pid\<close>; and of a list of such objects, the sessions on which
  the platform accepts \<^verbatim>\<open>SetDuckingPreference\<close>.
\<close>

definition opted_out :: "DWORD \<Rightarrow> IAudioSessionControl list \<Rightarrow> IAudioSessionControl2 list" where
  "opted_out my_pid cs =
     concat (map (\<lambda>c. case QueryInterface_out c of
                         None \<Rightarrow> []
                       | Some c2 \<Rightarrow> if pid_read c = Some my_pid then [c2] else []) cs)"

definition granted :: "IAudioSessionControl2 list \<Rightarrow> nat list" where
  "granted c2s = map c2_id (filter (\<lambda>c2. SUCCEEDED (SetDuckingPreference_hr c2)) c2s)"

text \<open>
  The session that \<^verbatim>\<open>GetSession(i)\<close> yields (none when it fails or yields null), the
  sessions that the pass over a session manager examines, the session manager obtained
  for the device of index \<open>i\<close> (\<open>None\<close> when \<^verbatim>\<open>Item\<close> or \<^verbatim>\<open>Activate\<close> fails or yields
  null), the device collection a pass obtains, and from them the session managers and
  the sessions that one call of \<open>Initialize\<close> reaches.
\<close>

definition session_at :: "IAudioSessionEnumerator \<Rightarrow> nat \<Rightarrow> IAudioSessionControl list" where
  "session_at e i =
     (case GetSession e i of
        (hr, None) \<Rightarrow> []
      | (hr, Some c) \<Rightarrow> if SUCCEEDED hr then [c] else [])"

definition sessions_of :: "IAudioSessionManager2 option \<Rightarrow> IAudioSessionControl list" where
  "sessions_of manager2' =
     (case manager2' of
        None \<Rightarrow> []
      | Some m \<Rightarrow>
          (case GetSessionEnumerator_out m of
             None \<Rightarrow> []
           | Some e \<Rightarrow>
               if SUCCEEDED (GetSessionEnumerator_hr m) \<and> SUCCEEDED (GetCount_hr e)
               then concat (map (session_at e) [0..<nat (GetCount_out e)])
               else []))"

definition manager_at :: "IMMDeviceCollection \<Rightarrow> nat \<Rightarrow> IAudioSessionManager2 option" where
  "manager_at c i =
     (case Item c i of
        (hr, None) \<Rightarrow> None
      | (hr, Some d) \<Rightarrow>
          if SUCCEEDED hr \<and> SUCCEEDED (Activate_hr d) then Activate_out d else None)"

definition collection_of :: "platform \<Rightarrow> IMMDeviceCollection option" where
  "collection_of p =
     (case CoCreateInstance_out p of
        None \<Rightarrow> None
      | Some e \<Rightarrow>
          if SUCCEEDED (CoCreateInstance_hr p) \<and> SUCCEEDED (EnumAudioEndpoints_hr e)
          then EnumAudioEndpoints_out e else None)"

definition managers_of :: "platform \<Rightarrow> IAudioSessionManager2 option list" where
  "managers_of p =
     (case collection_of p of
        None \<Rightarrow> []
      | Some c \<Rightarrow> map (manager_at c) [0..<GetCount_devices c])"

definition existing_sessions :: "platform \<Rightarrow> IAudioSessionControl list" where
  "existing_sessions p = concat (map sessions_of (managers_of p))"

text \<open>
  The registration that \<^verbatim>\<open>RegisterForNewSessions\<close> records for a session manager when
  the notifier has address \<open>a\<close>: none when the subscription fails. \<open>new_registrations\<close>
  are those of a list of session managers, in order, each manager taking the next
  address; \<open>subscribed\<close> are their session managers. \<open>registered_notifier\<close> is the
  new notifier after the platform has taken its references.
\<close>

definition new_registration :: "IAudioSessionManager2 option \<Rightarrow> nat \<Rightarrow> Registration list" where
  "new_registration manager2' a =
     (case manager2' of
        None \<Rightarrow> []
      | Some m \<Rightarrow>
          if SUCCEEDED (RegisterSessionNotification_hr m)
          then [\<lparr>manager2 = Some (mgr_id m), notifier = Some a\<rparr>] else [])"

fun new_registrations :: "nat \<Rightarrow> IAudioSessionManager2 option list \<Rightarrow> Registration list" where
  "new_registrations a [] = []"
| "new_registrations a (None # ms) = new_registrations a ms"
| "new_registrations a (Some m # ms) =
     new_registration (Some m) a @ new_registrations (Suc a) ms"

definition subscribed :: "IAudioSessionManager2 option list \<Rightarrow> nat option list" where
  "subscribed ms = concat (map (\<lambda>m'. map manager2 (new_registration m' 0)) ms)"

definition registered_notifier :: "IAudioSessionManager2 \<Rightarrow> SessionNotifier" where
  "registered_notifier m =
     ((\<lambda>n. snd (AddRef n)) ^^ RegisterSessionNotification_refs m) SessionNotifier_new"

text \<open>
  The subsystem is unavailable when the device enumerator cannot be created or the
  endpoints cannot be enumerated: the call fails or yields null.
\<close>

definition subsystem_unavailable :: "platform \<Rightarrow> bool" where
  "subsystem_unavailable p =
     (case CoCreateInstance_out p of
        None \<Rightarrow> True
      | Some e \<Rightarrow>
          FAILED (CoCreateInstance_hr p) \<or> FAILED (EnumAudioEndpoints_hr e)
          \<or> EnumAudioEndpoints_out e = None)"

text \<open>
  A registration is live when both its pointers are set and its notifier is allocated.
  The manager is in order when every registration is live, with a notifier that \<^verbatim>\<open>new\<close>
  has handed out, and no two registrations share a notifier.
\<close>

definition live :: "system \<Rightarrow> Registration \<Rightarrow> bool" where
  "live s r =
     (manager2 r \<noteq> None \<and> notifier r \<noteq> None \<and> notifiers s (the (notifier r)) \<noteq> None)"

definition manager_ok :: "system \<Rightarrow> bool" where
  "manager_ok s =
     (list_all (\<lambda>r. live s r \<and> the (notifier r) < next_notifier s) (registrations s)
      \<and> distinct (map notifier (registrations s)))"

text \<open>
  The calls of the destructor for one registration whose pointers are set.
\<close>

definition teardown_calls :: "Registration \<Rightarrow> call list" where
  "teardown_calls r =
     [Call_UnregisterSessionNotification (the (manager2 r)) (the (notifier r)),
      Call_Release (H_Notifier (the (notifier r))),
      Call_Release (H_SessionManager (the (manager2 r)))]"

text \<open>
  The retains and releases of session managers in a log: the manager, and \<open>1\<close> for an
  \<^verbatim>\<open>AddRef\<close>, \<open>- 1\<close> for a \<^verbatim>\<open>Release\<close>. \<open>stray_manager\<close> is the release of a manager
  that a failing \<^verbatim>\<open>Activate\<close> left in the out-parameter; COM's rule for \<^verbatim>\<open>Activate\<close> is that
  a failing call leaves null. By COM's rules a successful \<^verbatim>\<open>Activate\<close> hands its caller one
  reference on the session manager: \<open>manager_references_held\<close> counts the references the
  code holds after one pass on \<open>p\<close> and the calls \<open>cs\<close>, one for each manager activated,
  plus its retains, minus its releases.
\<close>

fun manager_ref :: "call \<Rightarrow> (nat \<times> int) list" where
  "manager_ref (Call_AddRef (H_SessionManager m)) = [(m, 1)]"
| "manager_ref (Call_Release (H_SessionManager m)) = [(m, - 1)]"
| "manager_ref _ = []"

definition manager_refs :: "call list \<Rightarrow> (nat \<times> int) list" where
  "manager_refs cs = concat (map manager_ref cs)"

definition stray_manager :: "IMMDeviceCollection \<Rightarrow> nat \<Rightarrow> (nat \<times> int) list" where
  "stray_manager c i =
     (case Item c i of
        (hr, None) \<Rightarrow> []
      | (hr, Some d) \<Rightarrow>
          if SUCCEEDED hr \<and> \<not> SUCCEEDED (Activate_hr d)
          then (case Activate_out d of None \<Rightarrow> [] | Some m \<Rightarrow> [(mgr_id m, - 1)])
          else [])"

definition Activate_contract :: "platform \<Rightarrow> bool" where
  "Activate_contract p =
     (case collection_of p of
        None \<Rightarrow> True
      | Some c \<Rightarrow>
          list_all (\<lambda>i. case Item c i of
                          (hr, None) \<Rightarrow> True
                        | (hr, Some d) \<Rightarrow> SUCCEEDED (Activate_hr d) \<or> Activate_out d = None)
            [0..<GetCount_devices c])"

definition manager_references_held :: "platform \<Rightarrow> call list \<Rightarrow> int" where
  "manager_references_held p cs =
     int (length (filter (\<lambda>m'. m' \<noteq> None) (managers_of p))) + sum_list (map snd (manager_refs cs))"

text \<open>
  Two states agree when they differ at most in the calls logged, and the
  \<^verbatim>\<open>SetDuckingPreference\<close> calls among those are the same.
\<close>

definition agree :: "system \<Rightarrow> system \<Rightarrow> bool" where
  "agree s t =
     (com_initialized s = com_initialized t \<and> registrations s = registrations t \<and>
      notifiers s = notifiers t \<and> next_notifier s = next_notifier t \<and>
      ducking_pref s = ducking_pref t \<and> duck_calls (calls s) = duck_calls (calls t))"

section \<open>A stub platform\<close>

text \<open>
  A platform on which every call succeeds, built from the sessions of each endpoint, and
  the scenario of the specification: endpoint 0 has a session of this process and one of
  process 123, endpoint 1 has none. The platform takes one reference on each notifier it
  registers.
\<close>

definition self_pid :: DWORD where
  "self_pid = 4242"

definition stub_session :: "nat \<Rightarrow> DWORD \<Rightarrow> IAudioSessionControl" where
  "stub_session i pid =
     \<lparr>ctl_id = i, QueryInterface_hr = S_OK,
      QueryInterface_out = Some \<lparr>c2_id = i, GetProcessId_hr = S_OK, GetProcessId_pid = pid,
                                 SetDuckingPreference_hr = S_OK\<rparr>\<rparr>"

definition stub_enumerator :: "nat \<Rightarrow> IAudioSessionControl list \<Rightarrow> IAudioSessionEnumerator" where
  "stub_enumerator i cs =
     \<lparr>enum_id = i, GetCount_hr = S_OK, GetCount_out = int (length cs),
      GetSession = (\<lambda>j. if j < length cs then (S_OK, Some (cs ! j)) else (E_FAIL, None))\<rparr>"

definition stub_manager :: "nat \<Rightarrow> IAudioSessionControl list \<Rightarrow> IAudioSessionManager2" where
  "stub_manager i cs =
     \<lparr>mgr_id = i, GetSessionEnumerator_hr = S_OK,
      GetSessionEnumerator_out = Some (stub_enumerator i cs),
      RegisterSessionNotification_hr = S_OK, RegisterSessionNotification_refs = 1\<rparr>"

definition stub_endpoint :: "nat \<Rightarrow> IAudioSessionControl list \<Rightarrow> IMMDevice" where
  "stub_endpoint i cs = \<lparr>dev_id = i, Activate_hr = S_OK, Activate_out = Some (stub_manager i cs)\<rparr>"

definition stub_collection :: "IMMDevice list \<Rightarrow> IMMDeviceCollection" where
  "stub_collection ds =
     \<lparr>GetCount_devices = length ds,
      Item = (\<lambda>i. if i < length ds then (S_OK, Some (ds ! i)) else (E_FAIL, None))\<rparr>"

definition stub_platform :: "HRESULT \<Rightarrow> IMMDevice list \<Rightarrow> platform" where
  "stub_platform hr ds =
     \<lparr>CoInitializeEx_hr = hr, CoCreateInstance_hr = S_OK,
      CoCreateInstance_out = Some \<lparr>EnumAudioEndpoints_hr = S_OK,
                                   EnumAudioEndpoints_out = Some (stub_collection ds)\<rparr>,
      GetCurrentProcessId = self_pid\<rparr>"

definition scenario :: "IMMDevice list" where
  "scenario = [stub_endpoint 0 [stub_session 10 self_pid, stub_session 11 123], stub_endpoint 1 []]"

text \<open>
  What can fail: a platform whose device enumerator cannot be created, an endpoint that
  cannot be activated, a session whose process id cannot be read, a session that refuses
  the preference, and an endpoint whose session manager refuses the subscription.
\<close>

definition unavailable_platform :: platform where
  "unavailable_platform =
     \<lparr>CoInitializeEx_hr = S_OK, CoCreateInstance_hr = E_FAIL, CoCreateInstance_out = None,
      GetCurrentProcessId = self_pid\<rparr>"

definition dead_endpoint :: "nat \<Rightarrow> IMMDevice" where
  "dead_endpoint i = \<lparr>dev_id = i, Activate_hr = E_FAIL, Activate_out = None\<rparr>"

definition unreadable_session :: "nat \<Rightarrow> IAudioSessionControl" where
  "unreadable_session i =
     \<lparr>ctl_id = i, QueryInterface_hr = S_OK,
      QueryInterface_out = Some \<lparr>c2_id = i, GetProcessId_hr = E_FAIL, GetProcessId_pid = 0,
                                 SetDuckingPreference_hr = S_OK\<rparr>\<rparr>"

definition refused_session :: "nat \<Rightarrow> DWORD \<Rightarrow> IAudioSessionControl" where
  "refused_session i pid =
     \<lparr>ctl_id = i, QueryInterface_hr = S_OK,
      QueryInterface_out = Some \<lparr>c2_id = i, GetProcessId_hr = S_OK, GetProcessId_pid = pid,
                                 SetDuckingPreference_hr = E_FAIL\<rparr>\<rparr>"

definition refusing_manager :: "nat \<Rightarrow> IAudioSessionManager2" where
  "refusing_manager i =
     \<lparr>mgr_id = i, GetSessionEnumerator_hr = S_OK,
      GetSessionEnumerator_out = Some (stub_enumerator i []),
      RegisterSessionNotification_hr = E_FAIL, RegisterSessionNotification_refs = 0\<rparr>"

definition refusing_endpoint :: "nat \<Rightarrow> IMMDevice" where
  "refusing_endpoint i = \<lparr>dev_id = i, Activate_hr = S_OK, Activate_out = Some (refusing_manager i)\<rparr>"

text \<open>
  Four endpoints with one failure of each kind among them: endpoint 0 has a session of
  this process, one whose process id cannot be read, one of this process that refuses
  the preference, and another of this process; endpoint 1 cannot be activated; the
  session manager of endpoint 2 refuses the subscription; endpoint 3 has a session of
  this process.
\<close>

definition faulty_endpoints :: "IMMDevice list" where
  "faulty_endpoints =
     [stub_endpoint 0 [stub_session 10 self_pid, unreadable_session 11,
                       refused_session 12 self_pid, stub_session 13 self_pid],
      dead_endpoint 1,
      refusing_endpoint 2,
      stub_endpoint 3 [stub_session 14 self_pid]]"

text \<open>
  A session whose \<^verbatim>\<open>QueryInterface\<close> reports success and stores null.
\<close>

definition lying_session :: "nat \<Rightarrow> IAudioSessionControl" where
  "lying_session i = \<lparr>ctl_id = i, QueryInterface_hr = S_OK, QueryInterface_out = None\<rparr>"

section \<open>Result codes: basic facts\<close>

lemma FAILED_iff: "FAILED hr = (\<not> SUCCEEDED hr)"
  by (auto simp: FAILED_def SUCCEEDED_def)

lemma SUCCEEDED_S_OK: "SUCCEEDED S_OK"
  by (simp add: SUCCEEDED_def S_OK_def)

lemma not_SUCCEEDED_E_NOINTERFACE: "\<not> SUCCEEDED E_NOINTERFACE"
  by (simp add: SUCCEEDED_def E_NOINTERFACE_def)

lemma not_SUCCEEDED_E_POINTER: "\<not> SUCCEEDED E_POINTER"
  by (simp add: SUCCEEDED_def E_POINTER_def)

lemma not_SUCCEEDED_E_FAIL: "\<not> SUCCEEDED E_FAIL"
  by (simp add: SUCCEEDED_def E_FAIL_def)

lemma codes_distinct:
  "E_POINTER \<noteq> E_NOINTERFACE" "E_FAIL \<noteq> RPC_E_CHANGED_MODE"
  "IID_IUnknown \<noteq> IID_IAudioSessionNotification"
  by (simp_all add: E_POINTER_def E_NOINTERFACE_def E_FAIL_def RPC_E_CHANGED_MODE_def
      IID_IUnknown_def IID_IAudioSessionNotification_def)

section \<open>The reference count of the notifier\<close>

text \<open>
  A notifier that holds \<open>c\<close> references, with \<open>c\<close> positive and every count on the way
  below \<open>2 ^ 32\<close>, is deleted by a sequence of operations exactly when the sequence
  brings the outstanding references to zero; until then its count is the number of
  outstanding references.
\<close>

lemma lifetime_outstanding:
  "0 < c \<Longrightarrow> ref_count n = word_of_int c \<Longrightarrow>
   \<forall>p\<in>set (prefixes ops). outstanding c p < 2 ^ 32 \<Longrightarrow>
   lifetime ops n =
     (if \<exists>p\<in>set (prefixes ops). outstanding c p = 0 then None
      else Some \<lparr>ref_count = word_of_int (outstanding c ops)\<rparr>)"
proof (induction ops arbitrary: c n)
  case Nil
  then show ?case by simp
next
  case (Cons x ops)
  from Cons.prems(3) have c_lt: "c < 2 ^ 32" by simp
  show ?case
  proof (cases x)
    case Retain
    have "lifetime ops (snd (AddRef n)) =
       (if \<exists>p\<in>set (prefixes ops). outstanding (c + 1) p = 0 then None
        else Some \<lparr>ref_count = word_of_int (outstanding (c + 1) ops)\<rparr>)"
      using Cons.prems Retain by (intro Cons.IH) (auto simp: AddRef_def Let_def)
    then show ?thesis using Retain Cons.prems(1) by auto
  next
    case Drop
    show ?thesis
    proof (cases "c = 1")
      case True
      then show ?thesis
        using Drop Cons.prems by (auto simp: Release_def Let_def intro!: bexI[of _ "[]"])
    next
      case False
      with Cons.prems(1) have c1: "0 < c - 1" by simp
      have ne: "(word_of_int c :: 32 word) - 1 \<noteq> 0"
      proof
        assume "(word_of_int c :: 32 word) - 1 = 0"
        then have "(word_of_int (c - 1) :: 32 word) = 0" by simp
        then have "(2::int) ^ LENGTH(32) dvd c - 1" by (simp only: word_of_int_eq_0_iff)
        then have "(2::int) ^ 32 dvd c - 1" by simp
        with c1 c_lt show False by (auto dest: zdvd_imp_le)
      qed
      have "lifetime ops (n\<lparr>ref_count := ref_count n - 1\<rparr>) =
         (if \<exists>p\<in>set (prefixes ops). outstanding (c - 1) p = 0 then None
          else Some \<lparr>ref_count = word_of_int (outstanding (c - 1) ops)\<rparr>)"
        using Cons.prems Drop c1 by (intro Cons.IH) auto
      then show ?thesis using Drop Cons.prems(1,2) ne by (auto simp: Release_def Let_def)
    qed
  qed
qed

text \<open>
  C8. The constructor sets the count to one. \<open>AddRef\<close> adds one and returns the new
  count. \<open>Release\<close> returns the count that remains and deletes the object exactly when
  that count is zero; otherwise the object stays, with the remaining count. Over any
  sequence of retains and releases on a new notifier in which the outstanding references
  stay below \<open>2 ^ 32\<close> (the count is a 32-bit value), the object is deleted exactly when
  the outstanding references, one at the start, reach zero: on the last release and not
  before.
\<close>

theorem SessionNotifier_reference_count:
  "ref_count SessionNotifier_new = 1 \<and>
   AddRef n = (ref_count n + 1, n\<lparr>ref_count := ref_count n + 1\<rparr>) \<and>
   fst (Release n) = ref_count n - 1 \<and>
   (snd (Release n) = None) = (fst (Release n) = 0) \<and>
   (snd (Release n) = None \<or> snd (Release n) = Some (n\<lparr>ref_count := ref_count n - 1\<rparr>)) \<and>
   ((\<forall>p\<in>set (prefixes ops). outstanding 1 p < 2 ^ 32) \<longrightarrow>
      lifetime ops SessionNotifier_new =
        (if \<exists>p\<in>set (prefixes ops). outstanding 1 p = 0 then None
         else Some \<lparr>ref_count = word_of_int (outstanding 1 ops)\<rparr>))"
proof -
  have "ref_count SessionNotifier_new = word_of_int 1"
    by (simp add: SessionNotifier_new_def)
  then have "(\<forall>p\<in>set (prefixes ops). outstanding 1 p < 2 ^ 32) \<longrightarrow>
      lifetime ops SessionNotifier_new =
        (if \<exists>p\<in>set (prefixes ops). outstanding 1 p = 0 then None
         else Some \<lparr>ref_count = word_of_int (outstanding 1 ops)\<rparr>)"
    using lifetime_outstanding [of 1 SessionNotifier_new ops] by simp
  then show ?thesis
    by (simp add: SessionNotifier_new_def AddRef_def Release_def Let_def)
qed

text \<open>
  A retain and a release leave a new notifier alive with count one; the second release
  deletes it, as does the single release of a new notifier.
\<close>

theorem SessionNotifier_reference_count_witness:
  "list_all (\<lambda>p. outstanding 1 p < 2 ^ 32) (prefixes [Retain, Drop, Drop]) \<and>
   lifetime [Retain, Drop] SessionNotifier_new = Some \<lparr>ref_count = 1\<rparr> \<and>
   lifetime [Retain, Drop, Drop] SessionNotifier_new = None \<and>
   Release SessionNotifier_new = (0, None)"
  using SessionNotifier_reference_count [of SessionNotifier_new "[Retain, Drop]"]
    SessionNotifier_reference_count [of SessionNotifier_new "[Retain, Drop, Drop]"]
  by (simp add: SessionNotifier_new_def Release_def)

section \<open>The capability query of the notifier\<close>

text \<open>
  C9, as the code has it. Given a non-null output location, \<open>QueryInterface\<close> succeeds
  exactly for \<^verbatim>\<open>IUnknown\<close> and \<^verbatim>\<open>IAudioSessionNotification\<close>: it then stores the notifier in
  the location, adds one to the reference count and returns \<^verbatim>\<open>S_OK\<close>; for every other
  identifier it stores null, leaves the count alone and returns \<^verbatim>\<open>E_NOINTERFACE\<close>. Given a
  null output location it returns the failure code \<^verbatim>\<open>E_POINTER\<close> whatever is asked for,
  and leaves the count alone.
\<close>

theorem QueryInterface_capabilities:
  "SUCCEEDED (fst (QueryInterface this n riid (Some v))) =
     (riid = IID_IUnknown \<or> riid = IID_IAudioSessionNotification) \<and>
   QueryInterface this n riid (Some v) =
     (if riid = IID_IUnknown \<or> riid = IID_IAudioSessionNotification
      then (S_OK, Some (Some this), n\<lparr>ref_count := ref_count n + 1\<rparr>)
      else (E_NOINTERFACE, Some None, n)) \<and>
   QueryInterface this n riid None = (E_POINTER, None, n) \<and>
   \<not> SUCCEEDED E_POINTER"
  by (simp add: QueryInterface_def AddRef_def Let_def SUCCEEDED_S_OK
      not_SUCCEEDED_E_NOINTERFACE not_SUCCEEDED_E_POINTER)

text \<open>
  With a null output location the query for \<^verbatim>\<open>IUnknown\<close> fails and the count of a new
  notifier stays one; the query for the identifier 0, which is not supported, does not
  return \<^verbatim>\<open>E_NOINTERFACE\<close>.
\<close>

theorem QueryInterface_null_location_counterexample:
  "\<not> SUCCEEDED (fst (QueryInterface 0 SessionNotifier_new IID_IUnknown None)) \<and>
   ref_count (snd (snd (QueryInterface 0 SessionNotifier_new IID_IUnknown None))) = 1 \<and>
   (0 :: IID) \<noteq> IID_IUnknown \<and> (0 :: IID) \<noteq> IID_IAudioSessionNotification \<and>
   fst (QueryInterface 0 SessionNotifier_new 0 None) \<noteq> E_NOINTERFACE"
  by (simp add: QueryInterface_def not_SUCCEEDED_E_POINTER SessionNotifier_new_def
      codes_distinct IID_IUnknown_def IID_IAudioSessionNotification_def)

section \<open>What each function does to each part of the state\<close>

lemma call_simps [simp]:
  "com_initialized (call c s) = com_initialized s"
  "registrations (call c s) = registrations s"
  "notifiers (call c s) = notifiers s"
  "next_notifier (call c s) = next_notifier s"
  "ducking_pref (call c s) = ducking_pref s"
  "calls (call c s) = calls s @ [c]"
  by (simp_all add: call_def)

lemma duck_calls_simps [simp]:
  "duck_calls [] = []"
  "duck_calls (xs @ ys) = duck_calls xs @ duck_calls ys"
  "duck_calls (c # cs) = duck_call c @ duck_calls cs"
  by (simp_all add: duck_calls_def)

lemma SafeRelease_simps [simp]:
  "com_initialized (SafeRelease pp s) = com_initialized s"
  "registrations (SafeRelease pp s) = registrations s"
  "notifiers (SafeRelease pp s) = notifiers s"
  "next_notifier (SafeRelease pp s) = next_notifier s"
  "ducking_pref (SafeRelease pp s) = ducking_pref s"
  "duck_calls (calls (SafeRelease pp s)) = duck_calls (calls s)"
  by (simp_all add: SafeRelease_def duck_calls_def split: option.splits)

lemma SetDuckingPreference_simps [simp]:
  "com_initialized (SetDuckingPreference c2 b s) = com_initialized s"
  "registrations (SetDuckingPreference c2 b s) = registrations s"
  "notifiers (SetDuckingPreference c2 b s) = notifiers s"
  "next_notifier (SetDuckingPreference c2 b s) = next_notifier s"
  "ducking_pref (SetDuckingPreference c2 b s) =
     (if SUCCEEDED (SetDuckingPreference_hr c2) then (ducking_pref s)(c2_id c2 := b)
      else ducking_pref s)"
  "calls (SetDuckingPreference c2 b s) = calls s @ [Call_SetDuckingPreference (c2_id c2) b]"
  by (simp_all add: SetDuckingPreference_def Let_def)

lemma opted_out_simps [simp]:
  "opted_out my_pid [] = []"
  "opted_out my_pid (xs @ ys) = opted_out my_pid xs @ opted_out my_pid ys"
  by (simp_all add: opted_out_def)

lemma granted_simps [simp]:
  "granted [] = []"
  "granted (xs @ ys) = granted xs @ granted ys"
  by (simp_all add: granted_def)

lemma opted_out_iff:
  "(c2 \<in> set (opted_out my_pid cs)) =
     (\<exists>c\<in>set cs. QueryInterface_out c = Some c2 \<and> SUCCEEDED (QueryInterface_hr c) \<and>
        SUCCEEDED (GetProcessId_hr c2) \<and> GetProcessId_pid c2 = my_pid)"
  by (auto simp: opted_out_def pid_read_def split: option.splits if_splits)

lemma unreadable_not_opted_out:
  "list_all (\<lambda>x. pid_read x = None) cs \<Longrightarrow> opted_out my_pid cs = []"
  by (induction cs) (simp_all add: opted_out_def split: option.splits)

subsection \<open>The pass over the sessions of one endpoint\<close>

lemma apply_session_frame [simp]:
  "com_initialized (apply_session my_pid e i s) = com_initialized s"
  "registrations (apply_session my_pid e i s) = registrations s"
  "notifiers (apply_session my_pid e i s) = notifiers s"
  "next_notifier (apply_session my_pid e i s) = next_notifier s"
  by (simp_all add: apply_session_def Let_def split: prod.splits option.splits)

lemma apply_session_duck_calls:
  "duck_calls (calls (apply_session my_pid e i s)) =
     duck_calls (calls s) @ map (\<lambda>c2. (c2_id c2, True)) (opted_out my_pid (session_at e i))"
  by (simp add: apply_session_def Let_def opted_out_def session_at_def pid_read_def
      split: prod.splits option.splits)

lemma apply_session_ducking_pref:
  "ducking_pref (apply_session my_pid e i s) =
     (\<lambda>x. ducking_pref s x \<or> x \<in> set (granted (opted_out my_pid (session_at e i))))"
  by (auto simp add: apply_session_def Let_def opted_out_def session_at_def pid_read_def granted_def fun_eq_iff
      split: prod.splits option.splits)

lemma fold_apply_session_frame [simp]:
  "com_initialized (fold (apply_session my_pid e) js s) = com_initialized s"
  "registrations (fold (apply_session my_pid e) js s) = registrations s"
  "notifiers (fold (apply_session my_pid e) js s) = notifiers s"
  "next_notifier (fold (apply_session my_pid e) js s) = next_notifier s"
  by (induction js arbitrary: s; simp)+

lemma fold_apply_session_duck_calls:
  "duck_calls (calls (fold (apply_session my_pid e) js s)) =
     duck_calls (calls s) @
       map (\<lambda>c2. (c2_id c2, True)) (opted_out my_pid (concat (map (session_at e) js)))"
  by (induction js arbitrary: s) (simp_all add: apply_session_duck_calls)

lemma fold_apply_session_ducking_pref:
  "ducking_pref (fold (apply_session my_pid e) js s) =
     (\<lambda>x. ducking_pref s x \<or>
           x \<in> set (granted (opted_out my_pid (concat (map (session_at e) js)))))"
  by (induction js arbitrary: s) (auto simp add: apply_session_ducking_pref fun_eq_iff)

lemma ApplyOptOut_frame [simp]:
  "com_initialized (ApplyOptOutToExistingSessions my_pid m' s) = com_initialized s"
  "registrations (ApplyOptOutToExistingSessions my_pid m' s) = registrations s"
  "notifiers (ApplyOptOutToExistingSessions my_pid m' s) = notifiers s"
  "next_notifier (ApplyOptOutToExistingSessions my_pid m' s) = next_notifier s"
  by (simp_all add: ApplyOptOutToExistingSessions_def Let_def split: option.splits)

lemma ApplyOptOut_duck_calls:
  "duck_calls (calls (ApplyOptOutToExistingSessions my_pid m' s)) =
     duck_calls (calls s) @ map (\<lambda>c2. (c2_id c2, True)) (opted_out my_pid (sessions_of m'))"
  by (simp add: ApplyOptOutToExistingSessions_def Let_def sessions_of_def FAILED_iff
      fold_apply_session_duck_calls split: option.splits)

lemma ApplyOptOut_ducking_pref:
  "ducking_pref (ApplyOptOutToExistingSessions my_pid m' s) =
     (\<lambda>x. ducking_pref s x \<or> x \<in> set (granted (opted_out my_pid (sessions_of m'))))"
  by (simp add: ApplyOptOutToExistingSessions_def Let_def sessions_of_def FAILED_iff
      fold_apply_session_ducking_pref split: option.splits)

subsection \<open>Registration\<close>

lemma registered_notifier_ref_count:
  "registered_notifier m = \<lparr>ref_count = 1 + of_nat (RegisterSessionNotification_refs m)\<rparr>"
proof -
  have "((\<lambda>n. snd (AddRef n)) ^^ k) SessionNotifier_new = \<lparr>ref_count = 1 + of_nat k\<rparr>" for k
    by (induction k) (simp_all add: SessionNotifier_new_def AddRef_def Let_def)
  then show ?thesis by (simp add: registered_notifier_def)
qed

lemma Register_frame [simp]:
  "com_initialized (RegisterForNewSessions m' s) = com_initialized s"
  "ducking_pref (RegisterForNewSessions m' s) = ducking_pref s"
  "duck_calls (calls (RegisterForNewSessions m' s)) = duck_calls (calls s)"
  by (simp_all add: RegisterForNewSessions_def Let_def split: option.splits)

lemma Register_next_notifier:
  "next_notifier (RegisterForNewSessions m' s) =
     (if m' = None then next_notifier s else Suc (next_notifier s))"
  by (simp add: RegisterForNewSessions_def Let_def split: option.splits)

lemma Register_registrations:
  "registrations (RegisterForNewSessions m' s) =
     registrations s @ new_registration m' (next_notifier s)"
  by (simp add: RegisterForNewSessions_def Let_def new_registration_def split: option.splits)

lemma Register_notifiers:
  "notifiers (RegisterForNewSessions m' s) =
     (case m' of
        None \<Rightarrow> notifiers s
      | Some m \<Rightarrow>
          (notifiers s)(next_notifier s :=
             if SUCCEEDED (RegisterSessionNotification_hr m) then Some (registered_notifier m)
             else snd (Release (registered_notifier m))))"
  by (simp add: RegisterForNewSessions_def Let_def registered_notifier_def split: option.splits)

subsection \<open>One render device\<close>

lemma Create_fst:
  "fst (CreateSessionManagerForDevice device s) =
     (case device of None \<Rightarrow> None
      | Some d \<Rightarrow> if SUCCEEDED (Activate_hr d) then Activate_out d else None)"
  by (simp add: CreateSessionManagerForDevice_def Let_def FAILED_iff split: option.splits)

lemma Create_frame [simp]:
  "com_initialized (snd (CreateSessionManagerForDevice device s)) = com_initialized s"
  "registrations (snd (CreateSessionManagerForDevice device s)) = registrations s"
  "notifiers (snd (CreateSessionManagerForDevice device s)) = notifiers s"
  "next_notifier (snd (CreateSessionManagerForDevice device s)) = next_notifier s"
  "ducking_pref (snd (CreateSessionManagerForDevice device s)) = ducking_pref s"
  "duck_calls (calls (snd (CreateSessionManagerForDevice device s))) = duck_calls (calls s)"
  by (simp_all add: CreateSessionManagerForDevice_def Let_def split: option.splits)

lemma None_simps [simp]:
  "ApplyOptOutToExistingSessions my_pid None s = s"
  "RegisterForNewSessions None s = s"
  "sessions_of None = []"
  "new_registration None a = []"
  by (simp_all add: ApplyOptOutToExistingSessions_def RegisterForNewSessions_def sessions_of_def
      new_registration_def)

lemma setup_device_com_initialized [simp]:
  "com_initialized (setup_device my_pid c i s) = com_initialized s"
  by (simp add: setup_device_def Let_def case_prod_unfold Create_fst split: option.splits)

lemma setup_device_duck_calls:
  "duck_calls (calls (setup_device my_pid c i s)) =
     duck_calls (calls s) @
       map (\<lambda>c2. (c2_id c2, True)) (opted_out my_pid (sessions_of (manager_at c i)))"
  by (simp add: setup_device_def manager_at_def Let_def case_prod_unfold Create_fst ApplyOptOut_duck_calls split: option.splits)

lemma setup_device_ducking_pref:
  "ducking_pref (setup_device my_pid c i s) =
     (\<lambda>x. ducking_pref s x \<or>
           x \<in> set (granted (opted_out my_pid (sessions_of (manager_at c i)))))"
  by (simp add: setup_device_def manager_at_def Let_def case_prod_unfold Create_fst ApplyOptOut_ducking_pref split: option.splits)

lemma setup_device_next_notifier:
  "next_notifier (setup_device my_pid c i s) =
     (if manager_at c i = None then next_notifier s else Suc (next_notifier s))"
  by (simp add: setup_device_def manager_at_def Let_def case_prod_unfold Create_fst Register_next_notifier split: option.splits)

lemma setup_device_registrations:
  "registrations (setup_device my_pid c i s) =
     registrations s @ new_registration (manager_at c i) (next_notifier s)"
  by (simp add: setup_device_def manager_at_def Let_def case_prod_unfold Create_fst Register_registrations split: option.splits)

lemma setup_device_notifiers:
  "notifiers (setup_device my_pid c i s) =
     (case manager_at c i of
        None \<Rightarrow> notifiers s
      | Some m \<Rightarrow>
          (notifiers s)(next_notifier s :=
             if SUCCEEDED (RegisterSessionNotification_hr m) then Some (registered_notifier m)
             else snd (Release (registered_notifier m))))"
  by (simp add: setup_device_def manager_at_def Let_def case_prod_unfold Create_fst Register_notifiers split: option.splits)

subsection \<open>All render devices\<close>

lemma fold_setup_device_com_initialized [simp]:
  "com_initialized (fold (setup_device my_pid c) is s) = com_initialized s"
  by (induction "is" arbitrary: s) simp_all

lemma fold_setup_device_duck_calls:
  "duck_calls (calls (fold (setup_device my_pid c) is s)) =
     duck_calls (calls s) @
       map (\<lambda>c2. (c2_id c2, True))
         (opted_out my_pid (concat (map sessions_of (map (manager_at c) is))))"
  by (induction "is" arbitrary: s) (simp_all add: setup_device_duck_calls)

lemma fold_setup_device_ducking_pref:
  "ducking_pref (fold (setup_device my_pid c) is s) =
     (\<lambda>x. ducking_pref s x \<or>
           x \<in> set (granted (opted_out my_pid
                   (concat (map sessions_of (map (manager_at c) is))))))"
  by (induction "is" arbitrary: s) (auto simp add: setup_device_ducking_pref fun_eq_iff)

lemma fold_setup_device_next_notifier:
  "next_notifier (fold (setup_device my_pid c) is s) =
     next_notifier s + length (filter (\<lambda>m'. m' \<noteq> None) (map (manager_at c) is))"
  by (induction "is" arbitrary: s) (simp_all add: setup_device_next_notifier)

lemma fold_setup_device_registrations:
  "registrations (fold (setup_device my_pid c) is s) =
     registrations s @ new_registrations (next_notifier s) (map (manager_at c) is)"
proof (induction "is" arbitrary: s)
  case Nil
  then show ?case by simp
next
  case (Cons i "is")
  show ?case
    by (cases "manager_at c i")
      (simp_all add: Cons.IH setup_device_registrations setup_device_next_notifier)
qed

lemma manager2_new_registration:
  "map manager2 (new_registration m' a) = map manager2 (new_registration m' 0)"
  by (simp add: new_registration_def split: option.splits)

lemma manager2_new_registrations:
  "map manager2 (new_registrations a ms) = subscribed ms"
proof (induction ms arbitrary: a)
  case Nil
  then show ?case by (simp add: subscribed_def)
next
  case (Cons m' ms)
  then show ?case
    by (cases m') (simp_all add: subscribed_def manager2_new_registration [where a = a])
qed

lemma fold_setup_device_managers:
  "map manager2 (registrations (fold (setup_device my_pid c) is s)) =
     map manager2 (registrations s) @ subscribed (map (manager_at c) is)"
  by (induction "is" arbitrary: s)
    (simp_all add: setup_device_registrations subscribed_def
      manager2_new_registration [where a = "next_notifier _"])

lemma Setup_com_initialized [simp]:
  "com_initialized (SetupForAllRenderDevices p s) = com_initialized s"
  by (simp add: SetupForAllRenderDevices_def Let_def split: option.splits)

lemma Setup_duck_calls:
  "duck_calls (calls (SetupForAllRenderDevices p s)) =
     duck_calls (calls s) @
       map (\<lambda>c2. (c2_id c2, True)) (opted_out (GetCurrentProcessId p) (existing_sessions p))"
  by (simp add: SetupForAllRenderDevices_def Let_def existing_sessions_def managers_of_def
      collection_of_def FAILED_iff fold_setup_device_duck_calls split: option.splits)

lemma Setup_ducking_pref:
  "ducking_pref (SetupForAllRenderDevices p s) =
     (\<lambda>x. ducking_pref s x \<or>
           x \<in> set (granted (opted_out (GetCurrentProcessId p) (existing_sessions p))))"
  by (simp add: SetupForAllRenderDevices_def Let_def existing_sessions_def managers_of_def
      collection_of_def FAILED_iff fold_setup_device_ducking_pref split: option.splits)

lemma Setup_registrations:
  "registrations (SetupForAllRenderDevices p s) =
     registrations s @ new_registrations (next_notifier s) (managers_of p)"
  by (simp add: SetupForAllRenderDevices_def Let_def managers_of_def
      collection_of_def FAILED_iff fold_setup_device_registrations split: option.splits)

lemma Initialize_com_initialized:
  "com_initialized (Initialize p s) = (com_initialized s \<or> SUCCEEDED (CoInitializeEx_hr p))"
  by (simp add: Initialize_def Let_def)

lemma Initialize_duck_calls:
  "duck_calls (calls (Initialize p s)) =
     duck_calls (calls s) @
       map (\<lambda>c2. (c2_id c2, True)) (opted_out (GetCurrentProcessId p) (existing_sessions p))"
  by (simp add: Initialize_def Let_def Setup_duck_calls)

lemma Initialize_ducking_pref:
  "ducking_pref (Initialize p s) =
     (\<lambda>x. ducking_pref s x \<or>
           x \<in> set (granted (opted_out (GetCurrentProcessId p) (existing_sessions p))))"
  by (simp add: Initialize_def Let_def Setup_ducking_pref)

lemma Initialize_registrations:
  "registrations (Initialize p s) =
     registrations s @ new_registrations (next_notifier s) (managers_of p)"
  by (simp add: Initialize_def Let_def Setup_registrations)

lemma funpow_Initialize_length:
  "length (registrations ((Initialize p ^^ N) s)) =
     length (registrations s) + N * length (subscribed (managers_of p))"
proof (induction N)
  case 0
  then show ?case by simp
next
  case (Suc N)
  have "length (new_registrations a (managers_of p)) = length (subscribed (managers_of p))" for a
    using manager2_new_registrations [of a "managers_of p", THEN arg_cong, of length] by simp
  with Suc show ?case by (simp add: Initialize_registrations)
qed

subsection \<open>The callback\<close>

lemma OnSessionCreated_effect:
  assumes "QueryInterface_contract c"
  shows "\<exists>s'. OnSessionCreated current_pid (Some c) s = Some (S_OK, s') \<and>
           duck_calls (calls s') =
             duck_calls (calls s) @ map (\<lambda>c2. (c2_id c2, True)) (opted_out current_pid [c]) \<and>
           ducking_pref s' =
             (\<lambda>x. ducking_pref s x \<or> x \<in> set (granted (opted_out current_pid [c]))) \<and>
           com_initialized s' = com_initialized s \<and> registrations s' = registrations s \<and>
           notifiers s' = notifiers s \<and> next_notifier s' = next_notifier s"
  using assms
  by (auto simp: OnSessionCreated_def QueryInterface_contract_def Let_def opted_out_def
      pid_read_def granted_def fun_eq_iff split: option.splits)

subsection \<open>The manager stays in order\<close>

lemma manager_ok_frame [simp]:
  "manager_ok (call c s) = manager_ok s"
  "manager_ok (SafeRelease pp s) = manager_ok s"
  "manager_ok (s\<lparr>com_initialized := b\<rparr>) = manager_ok s"
  by (simp_all add: manager_ok_def live_def)

lemma manager_ok_setup_device:
  assumes "manager_ok s"
  shows "manager_ok (setup_device my_pid c i s)"
proof (cases "manager_at c i")
  case None
  then show ?thesis
    using assms
    by (simp add: manager_ok_def live_def setup_device_registrations setup_device_next_notifier
        setup_device_notifiers)
next
  case (Some m)
  have old: "\<forall>r\<in>set (registrations s). notifier r \<noteq> None \<and> the (notifier r) < next_notifier s"
    using assms by (auto simp: manager_ok_def live_def list_all_iff)
  then have fresh: "Some (next_notifier s) \<notin> notifier ` set (registrations s)"
    by force
  show ?thesis
    using assms Some fresh
    by (auto simp: manager_ok_def live_def setup_device_registrations setup_device_next_notifier
        setup_device_notifiers new_registration_def list_all_iff)
qed

lemma manager_ok_fold_setup_device:
  "manager_ok s \<Longrightarrow> manager_ok (fold (setup_device my_pid c) is s)"
  by (induction "is" arbitrary: s) (simp_all add: manager_ok_setup_device)

lemma manager_ok_Setup:
  "manager_ok s \<Longrightarrow> manager_ok (SetupForAllRenderDevices p s)"
  by (simp add: SetupForAllRenderDevices_def Let_def manager_ok_fold_setup_device
      split: option.splits)

lemma manager_ok_Initialize:
  "manager_ok s \<Longrightarrow> manager_ok (Initialize p s)"
  by (simp add: Initialize_def Let_def manager_ok_Setup)

lemma manager_ok_new: "manager_ok AudioDuckingManager_new"
  by (simp add: manager_ok_def AudioDuckingManager_new_def)

subsection \<open>The destructor\<close>

lemma release_registrations_ok:
  "list_all (live s) rs \<Longrightarrow> distinct (map notifier rs) \<Longrightarrow>
   \<exists>s'. release_registrations rs s = Some s' \<and>
        calls s' = calls s @ concat (map teardown_calls rs) \<and>
        registrations s' = registrations s \<and>
        com_initialized s' = com_initialized s \<and>
        ducking_pref s' = ducking_pref s \<and>
        next_notifier s' = next_notifier s \<and>
        (\<forall>b. Some b \<notin> notifier ` set rs \<longrightarrow> notifiers s' b = notifiers s b) \<and>
        (\<forall>r\<in>set rs. notifiers s' (the (notifier r)) =
                        snd (Release (the (notifiers s (the (notifier r))))))"
proof (induction rs arbitrary: s)
  case Nil
  then show ?case by simp
next
  case (Cons r rs)
  from Cons.prems(1) obtain m a n where
    r: "manager2 r = Some m" "notifier r = Some a" "notifiers s a = Some n"
    by (auto simp: live_def)
  define s1 where "s1 = call (Call_UnregisterSessionNotification m a) s"
  define s2 where "s2 = (call (Call_Release (H_Notifier a)) s1)
                          \<lparr>notifiers := (notifiers s1)(a := snd (Release n))\<rparr>"
  define s3 where "s3 = SafeRelease (Some (H_SessionManager m)) s2"
  have step: "release_registrations (r # rs) s = release_registrations rs s3"
    using r by (simp add: SafeRelease_notifier_def s1_def s2_def s3_def)
  have others: "notifiers s3 b = notifiers s b" if "b \<noteq> a" for b
    using that by (simp add: s3_def s2_def s1_def)
  have here: "notifiers s3 a = snd (Release n)"
    by (simp add: s3_def s2_def s1_def)
  have fresh: "Some a \<notin> notifier ` set rs"
    using Cons.prems(2) r by simp
  have diff: "the (notifier r') \<noteq> a" if "r' \<in> set rs" for r'
  proof -
    from that Cons.prems(1) have "notifier r' \<noteq> None" by (simp add: list_all_iff live_def)
    moreover from that fresh have "notifier r' \<noteq> Some a" by force
    ultimately show ?thesis by auto
  qed
  have "live s3 r'" if "r' \<in> set rs" for r'
    using that Cons.prems(1) others [OF diff [OF that]] by (simp add: list_all_iff live_def)
  then have "list_all (live s3) rs" by (simp add: list_all_iff)
  moreover have "distinct (map notifier rs)" using Cons.prems(2) by simp
  ultimately obtain s' where s': "release_registrations rs s3 = Some s'"
      "calls s' = calls s3 @ concat (map teardown_calls rs)"
      "registrations s' = registrations s3" "com_initialized s' = com_initialized s3"
      "ducking_pref s' = ducking_pref s3" "next_notifier s' = next_notifier s3"
      "\<forall>b. Some b \<notin> notifier ` set rs \<longrightarrow> notifiers s' b = notifiers s3 b"
      "\<forall>r\<in>set rs. notifiers s' (the (notifier r)) =
                        snd (Release (the (notifiers s3 (the (notifier r)))))"
    using Cons.IH [of s3] by blast
  have c: "calls s3 = calls s @ teardown_calls r"
    using r by (simp add: s3_def s2_def s1_def SafeRelease_def teardown_calls_def)
  have f: "\<forall>b. Some b \<notin> notifier ` set (r # rs) \<longrightarrow> notifiers s' b = notifiers s b"
    using s'(7) others r by auto
  have g: "\<forall>r'\<in>set (r # rs). notifiers s' (the (notifier r')) =
                        snd (Release (the (notifiers s (the (notifier r')))))"
  proof
    fix r' assume "r' \<in> set (r # rs)"
    then consider "r' = r" | "r' \<in> set rs" by auto
    then show "notifiers s' (the (notifier r')) =
                 snd (Release (the (notifiers s (the (notifier r')))))"
    proof cases
      case 1
      with s'(7) fresh here r show ?thesis by simp
    next
      case 2
      with s'(8) others [OF diff [OF 2]] show ?thesis by simp
    qed
  qed
  from s'(1-6) step c f g show ?case
    by (simp add: s3_def s2_def s1_def)
qed

lemma destroy_ok:
  assumes "manager_ok s"
  shows "\<exists>s'. AudioDuckingManager_destroy s = Some s' \<and>
           calls s' = calls s @ concat (map teardown_calls (registrations s)) @
                        (if com_initialized s then [Call_CoUninitialize] else []) \<and>
           registrations s' = []"
proof -
  have "list_all (live s) (registrations s)"
    using assms by (auto simp: manager_ok_def list_all_iff)
  moreover have "distinct (map notifier (registrations s))"
    using assms by (simp add: manager_ok_def)
  ultimately obtain s1 where "release_registrations (registrations s) s = Some s1"
      "calls s1 = calls s @ concat (map teardown_calls (registrations s))"
      "com_initialized s1 = com_initialized s"
    using release_registrations_ok [of s "registrations s"] by blast
  then show ?thesis
    by (simp add: AudioDuckingManager_destroy_def Let_def)
qed

subsection \<open>The stub platform\<close>

lemma new_simps:
  "com_initialized AudioDuckingManager_new = False"
  "registrations AudioDuckingManager_new = []"
  "next_notifier AudioDuckingManager_new = 0"
  "ducking_pref AudioDuckingManager_new = (\<lambda>_. False)"
  "calls AudioDuckingManager_new = []"
  by (simp_all add: AudioDuckingManager_new_def)

lemma stub_manager_simps:
  "mgr_id (stub_manager i cs) = i"
  "RegisterSessionNotification_hr (stub_manager i cs) = S_OK"
  "RegisterSessionNotification_refs (stub_manager i cs) = 1"
  by (simp_all add: stub_manager_def)

lemma stub_session_out:
  "QueryInterface_out (stub_session i pid) =
     Some \<lparr>c2_id = i, GetProcessId_hr = S_OK, GetProcessId_pid = pid,
           SetDuckingPreference_hr = S_OK\<rparr>"
  by (simp add: stub_session_def)

lemma pid_read_stub_session: "pid_read (stub_session i pid) = Some pid"
  by (simp add: pid_read_def stub_session_def SUCCEEDED_S_OK)

lemma opted_out_stub_session:
  "opted_out my_pid [stub_session i pid] =
     (if pid = my_pid
      then [\<lparr>c2_id = i, GetProcessId_hr = S_OK, GetProcessId_pid = pid,
             SetDuckingPreference_hr = S_OK\<rparr>]
      else [])"
  by (simp add: opted_out_def pid_read_stub_session stub_session_out)

lemma QueryInterface_contract_stub_session: "QueryInterface_contract (stub_session i pid)"
  by (simp add: QueryInterface_contract_def stub_session_out)

lemma stub_platform_simps:
  "GetCurrentProcessId (stub_platform hr ds) = self_pid"
  "CoInitializeEx_hr (stub_platform hr ds) = hr"
  by (simp_all add: stub_platform_def)

lemma session_at_stub_enumerator:
  "j < length cs \<Longrightarrow> session_at (stub_enumerator i cs) j = [cs ! j]"
  by (simp add: session_at_def stub_enumerator_def SUCCEEDED_S_OK)

lemma sessions_of_stub_manager:
  "sessions_of (Some (stub_manager i cs)) = cs"
proof -
  have "concat (map (session_at (stub_enumerator i cs)) [0..<length cs])
      = concat (map (\<lambda>j. [cs ! j]) [0..<length cs])"
    by (intro arg_cong [where f = concat] map_cong) (simp_all add: session_at_stub_enumerator)
  also have "\<dots> = map (\<lambda>j. cs ! j) [0..<length cs]"
    by simp
  also have "\<dots> = cs" by (simp add: map_nth)
  finally have "concat (map (session_at (stub_enumerator i cs)) [0..<length cs]) = cs" .
  moreover have "GetCount_out (stub_enumerator i cs) = int (length cs)"
      "GetCount_hr (stub_enumerator i cs) = S_OK"
    by (simp_all add: stub_enumerator_def)
  ultimately show ?thesis
    by (simp add: sessions_of_def stub_manager_def SUCCEEDED_S_OK)
qed

lemma manager_at_stub_collection:
  "i < length ds \<Longrightarrow>
   manager_at (stub_collection ds) i =
     (if SUCCEEDED (Activate_hr (ds ! i)) then Activate_out (ds ! i) else None)"
  by (simp add: manager_at_def stub_collection_def SUCCEEDED_S_OK)

lemma pid_read_unreadable_session: "pid_read (unreadable_session i) = None"
  by (simp add: pid_read_def unreadable_session_def not_SUCCEEDED_E_FAIL)

lemma opted_out_refused_session:
  "opted_out pid [refused_session i pid] =
     [\<lparr>c2_id = i, GetProcessId_hr = S_OK, GetProcessId_pid = pid,
       SetDuckingPreference_hr = E_FAIL\<rparr>]"
  by (simp add: opted_out_def pid_read_def refused_session_def SUCCEEDED_S_OK)

lemma managers_of_stub_platform:
  "managers_of (stub_platform hr (map (\<lambda>(i, cs). stub_endpoint i cs) xs)) =
     map (\<lambda>(i, cs). Some (stub_manager i cs)) xs"
  by (auto simp: managers_of_def collection_of_def stub_platform_def stub_collection_def
      manager_at_def stub_endpoint_def SUCCEEDED_S_OK intro!: nth_equalityI split: prod.splits)

lemma scenario_alt:
  "scenario = map (\<lambda>(i, cs). stub_endpoint i cs)
     [(0, [stub_session 10 self_pid, stub_session 11 123]), (1, [])]"
  by (simp add: scenario_def)

lemma managers_of_scenario:
  "managers_of (stub_platform hr scenario) =
     [Some (stub_manager 0 [stub_session 10 self_pid, stub_session 11 123]),
      Some (stub_manager 1 [])]"
  unfolding scenario_alt managers_of_stub_platform by simp

lemma existing_sessions_scenario:
  "existing_sessions (stub_platform hr scenario) = [stub_session 10 self_pid, stub_session 11 123]"
  by (simp add: existing_sessions_def managers_of_scenario sessions_of_stub_manager)

lemma opted_out_scenario:
  "opted_out self_pid (existing_sessions (stub_platform hr scenario)) =
     [\<lparr>c2_id = 10, GetProcessId_hr = S_OK, GetProcessId_pid = self_pid,
                                 SetDuckingPreference_hr = S_OK\<rparr>]"
  by (simp add: existing_sessions_scenario opted_out_def pid_read_stub_session stub_session_out
      self_pid_def)

lemma registrations_scenario:
  "registrations (Initialize (stub_platform hr scenario) AudioDuckingManager_new) =
     [\<lparr>manager2 = Some 0, notifier = Some 0\<rparr>, \<lparr>manager2 = Some 1, notifier = Some 1\<rparr>]"
  by (simp add: Initialize_registrations managers_of_scenario new_registration_def
      stub_manager_simps SUCCEEDED_S_OK new_simps)

lemma subscribed_scenario:
  "subscribed (managers_of (stub_platform hr scenario)) = [Some 0, Some 1]"
  by (simp add: managers_of_scenario subscribed_def new_registration_def stub_manager_simps
      SUCCEEDED_S_OK)

lemma managers_of_stub_platform_any:
  "managers_of (stub_platform hr ds) =
     map (\<lambda>d. if SUCCEEDED (Activate_hr d) then Activate_out d else None) ds"
  by (auto simp: managers_of_def collection_of_def stub_platform_def stub_collection_def
      manager_at_def SUCCEEDED_S_OK intro!: nth_equalityI)

lemma managers_of_faulty:
  "managers_of (stub_platform hr faulty_endpoints) =
     [Some (stub_manager 0 [stub_session 10 self_pid, unreadable_session 11,
                            refused_session 12 self_pid, stub_session 13 self_pid]),
      None,
      Some (refusing_manager 2),
      Some (stub_manager 3 [stub_session 14 self_pid])]"
  by (simp add: managers_of_stub_platform_any faulty_endpoints_def stub_endpoint_def
      dead_endpoint_def refusing_endpoint_def SUCCEEDED_S_OK not_SUCCEEDED_E_FAIL)

lemma sessions_of_refusing_manager: "sessions_of (Some (refusing_manager i)) = []"
  by (simp add: sessions_of_def refusing_manager_def stub_enumerator_def SUCCEEDED_S_OK)

lemma existing_sessions_faulty:
  "existing_sessions (stub_platform hr faulty_endpoints) =
     [stub_session 10 self_pid, unreadable_session 11, refused_session 12 self_pid,
      stub_session 13 self_pid, stub_session 14 self_pid]"
  by (simp add: existing_sessions_def managers_of_faulty sessions_of_stub_manager
      sessions_of_refusing_manager)

lemma refused_session_simps:
  "QueryInterface_out (refused_session i pid) =
     Some \<lparr>c2_id = i, GetProcessId_hr = S_OK, GetProcessId_pid = pid,
           SetDuckingPreference_hr = E_FAIL\<rparr>"
  "pid_read (refused_session i pid) = Some pid"
  by (simp_all add: refused_session_def pid_read_def SUCCEEDED_S_OK)

lemma unreadable_session_out:
  "QueryInterface_out (unreadable_session i) =
     Some \<lparr>c2_id = i, GetProcessId_hr = E_FAIL, GetProcessId_pid = 0,
           SetDuckingPreference_hr = S_OK\<rparr>"
  by (simp add: unreadable_session_def)

lemma refusing_manager_simps:
  "mgr_id (refusing_manager i) = i"
  "RegisterSessionNotification_hr (refusing_manager i) = E_FAIL"
  by (simp_all add: refusing_manager_def)

section \<open>The return code of the callback\<close>

text \<open>
  C10. \<open>OnSessionCreated\<close> does not return \<^verbatim>\<open>S_OK\<close> on every invocation. After the
  control-interface query it tests the result code alone, and calls \<^verbatim>\<open>GetProcessId\<close>
  through the pointer the query stored. Given a session whose query reports success and
  stores null, the callback calls through the null pointer and returns nothing (\<open>None\<close>),
  where the synchronous pass over the same session, which tests the pointer as well,
  releases the session and goes on without any preference call. On every other
  invocation, the null session included, the callback returns \<^verbatim>\<open>S_OK\<close>: the last
  equation gives its return code for every session and every state.
\<close>

theorem OnSessionCreated_null_control2:
  "SUCCEEDED (QueryInterface_hr (lying_session 1)) \<and>
   QueryInterface_out (lying_session 1) = None \<and>
   OnSessionCreated self_pid (Some (lying_session 1)) AudioDuckingManager_new = None \<and>
   calls (ApplyOptOutToExistingSessions self_pid
            (Some (stub_manager 0 [lying_session 1])) AudioDuckingManager_new) =
     [Call_GetSessionEnumerator 0, Call_GetCount_sessions 0, Call_GetSession 0 0,
      Call_QueryInterface 1, Call_Release (H_SessionControl 1),
      Call_Release (H_SessionEnumerator 0)] \<and>
   map_option fst (OnSessionCreated current_pid new_session s) =
     (if \<exists>c. new_session = Some c \<and> SUCCEEDED (QueryInterface_hr c) \<and>
              QueryInterface_out c = None
      then None else Some S_OK)"
proof -
  have "map_option fst (OnSessionCreated current_pid new_session s) =
     (if \<exists>c. new_session = Some c \<and> SUCCEEDED (QueryInterface_hr c) \<and>
              QueryInterface_out c = None
      then None else Some S_OK)"
    by (auto simp: OnSessionCreated_def Let_def split: option.splits if_splits)
  then show ?thesis
    by (simp add: lying_session_def OnSessionCreated_def ApplyOptOutToExistingSessions_def
        apply_session_def stub_manager_def stub_enumerator_def SafeRelease_def call_def
        AudioDuckingManager_new_def Let_def SUCCEEDED_S_OK FAILED_iff)
qed

section \<open>The ownership filter\<close>

text \<open>
  C1. The \<^verbatim>\<open>SetDuckingPreference\<close> calls that \<open>Initialize\<close> adds to the log are, in
  order, one call with \<^verbatim>\<open>TRUE\<close> for each session it reaches whose process id is read and
  equals the current process id, and no other. The same holds for the one session that
  \<open>OnSessionCreated\<close> is given, when the session's \<^verbatim>\<open>QueryInterface\<close> keeps COM's rule. A
  session is among those opted out if and only if the query for its
  \<^verbatim>\<open>IAudioSessionControl2\<close> succeeded, \<^verbatim>\<open>GetProcessId\<close> succeeded and the id it gave is the
  current one. The preference the platform holds becomes true on those of them for which
  it accepts the call (the code ignores what the call returns), and stays as it was on
  every other session.
\<close>

theorem ownership_filter:
  "duck_calls (calls (Initialize p s)) =
     duck_calls (calls s) @
       map (\<lambda>c2. (c2_id c2, True)) (opted_out (GetCurrentProcessId p) (existing_sessions p)) \<and>
   ducking_pref (Initialize p s) =
     (\<lambda>x. ducking_pref s x \<or>
           x \<in> set (granted (opted_out (GetCurrentProcessId p) (existing_sessions p)))) \<and>
   (QueryInterface_contract c \<longrightarrow>
      (\<exists>s'. OnSessionCreated current_pid (Some c) s = Some (S_OK, s') \<and>
         duck_calls (calls s') =
           duck_calls (calls s) @ map (\<lambda>c2. (c2_id c2, True)) (opted_out current_pid [c]) \<and>
         ducking_pref s' =
           (\<lambda>x. ducking_pref s x \<or> x \<in> set (granted (opted_out current_pid [c]))))) \<and>
   (c2 \<in> set (opted_out my_pid cs)) =
     (\<exists>c\<in>set cs. QueryInterface_out c = Some c2 \<and> SUCCEEDED (QueryInterface_hr c) \<and>
        SUCCEEDED (GetProcessId_hr c2) \<and> GetProcessId_pid c2 = my_pid)"
proof -
  have "\<exists>s'. OnSessionCreated current_pid (Some c) s = Some (S_OK, s') \<and>
         duck_calls (calls s') =
           duck_calls (calls s) @ map (\<lambda>c2. (c2_id c2, True)) (opted_out current_pid [c]) \<and>
         ducking_pref s' =
           (\<lambda>x. ducking_pref s x \<or> x \<in> set (granted (opted_out current_pid [c])))"
    if "QueryInterface_contract c"
    using OnSessionCreated_effect [OF that, of current_pid s] by blast
  then show ?thesis
    by (simp only: Initialize_duck_calls Initialize_ducking_pref opted_out_iff) blast
qed

text \<open>
  On the scenario the only call of \<open>Initialize\<close> is for session 10, the only preference
  set; a new session 12 of this process gets its call, and its preference, from the
  callback.
\<close>

theorem ownership_filter_witness:
  "QueryInterface_contract (stub_session 12 self_pid) \<and>
   duck_calls (calls (Initialize (stub_platform S_OK scenario) AudioDuckingManager_new)) =
     [(10, True)] \<and>
   ducking_pref (Initialize (stub_platform S_OK scenario) AudioDuckingManager_new) =
     (\<lambda>x. x = 10) \<and>
   (\<exists>s'. OnSessionCreated self_pid (Some (stub_session 12 self_pid)) AudioDuckingManager_new =
            Some (S_OK, s') \<and>
         duck_calls (calls s') = [(12, True)] \<and> ducking_pref s' = (\<lambda>x. x = 12))"
  using ownership_filter [where p = "stub_platform S_OK scenario" and s = AudioDuckingManager_new
      and c = "stub_session 12 self_pid" and current_pid = self_pid and my_pid = self_pid
      and cs = "[]" and ?c2.0 = "\<lparr>c2_id = 12, GetProcessId_hr = S_OK, GetProcessId_pid = self_pid,
           SetDuckingPreference_hr = S_OK\<rparr>"]
  by (simp add: stub_platform_simps opted_out_scenario QueryInterface_contract_stub_session
      opted_out_stub_session new_simps granted_def SUCCEEDED_S_OK)

section \<open>Sessions of other processes\<close>



section \<open>The notifier handed to the platform\<close>

text \<open>
  C6. A new notifier has reference count one. \<open>RegisterForNewSessions\<close> on a session
  manager \<open>m\<close>, the notifier getting address \<open>a\<close>: when the subscription succeeds, the pair
  of \<open>m\<close> and \<open>a\<close> is appended to the registrations, \<open>m\<close> is retained, and the notifier
  stays allocated with its own reference and those the platform took. When the
  subscription fails, the registrations are as before, the one call after the
  subscription is the release of the notifier, and the notifier is deleted unless the
  platform holds references on it (then it stays with exactly those).
\<close>

theorem RegisterForNewSessions_ownership:
  "ref_count SessionNotifier_new = 1 \<and>
   (let a = next_notifier s; s' = RegisterForNewSessions (Some m) s
    in if SUCCEEDED (RegisterSessionNotification_hr m)
       then registrations s' =
              registrations s @ [\<lparr>manager2 = Some (mgr_id m), notifier = Some a\<rparr>] \<and>
            calls s' = calls s @ [Call_RegisterSessionNotification (mgr_id m) a,
                                  Call_AddRef (H_SessionManager (mgr_id m))] \<and>
            notifiers s' a =
              Some \<lparr>ref_count = 1 + of_nat (RegisterSessionNotification_refs m)\<rparr>
       else registrations s' = registrations s \<and>
            calls s' = calls s @ [Call_RegisterSessionNotification (mgr_id m) a,
                                  Call_Release (H_Notifier a)] \<and>
            notifiers s' a =
              (if (of_nat (RegisterSessionNotification_refs m) :: ULONG) = 0 then None
               else Some \<lparr>ref_count = of_nat (RegisterSessionNotification_refs m)\<rparr>))"
  by (simp add: Let_def Register_registrations Register_notifiers new_registration_def
      registered_notifier_ref_count Release_def)
    (simp add: RegisterForNewSessions_def Let_def SessionNotifier_new_def)

section \<open>An unavailable subsystem\<close>

lemma unavailable_collection: "subsystem_unavailable p \<Longrightarrow> collection_of p = None"
  by (auto simp: subsystem_unavailable_def collection_of_def FAILED_iff split: option.splits)

lemma Setup_unavailable:
  "subsystem_unavailable p \<Longrightarrow>
   registrations (SetupForAllRenderDevices p s) = registrations s \<and>
   notifiers (SetupForAllRenderDevices p s) = notifiers s \<and>
   next_notifier (SetupForAllRenderDevices p s) = next_notifier s"
  by (auto simp: subsystem_unavailable_def SetupForAllRenderDevices_def Let_def
      split: option.splits)

text \<open>
  C5, as the code has it. When the device enumerator cannot be created or the endpoints
  cannot be enumerated, \<open>Initialize\<close> adds no registration, allocates no notifier,
  changes no preference and makes no \<^verbatim>\<open>SetDuckingPreference\<close> call; on a new manager no
  registration is held afterwards. What \<^verbatim>\<open>CoInitializeEx\<close> returned plays no part.
\<close>

theorem unavailable_subsystem_does_nothing:
  "subsystem_unavailable p \<Longrightarrow>
   registrations (Initialize p s) = registrations s \<and>
   notifiers (Initialize p s) = notifiers s \<and>
   ducking_pref (Initialize p s) = ducking_pref s \<and>
   duck_calls (calls (Initialize p s)) = duck_calls (calls s) \<and>
   registrations (Initialize p AudioDuckingManager_new) = []"
proof -
  assume u: "subsystem_unavailable p"
  then have "existing_sessions p = []"
    by (simp add: existing_sessions_def managers_of_def unavailable_collection)
  moreover have "registrations (Initialize p t) = registrations t \<and>
      notifiers (Initialize p t) = notifiers t" for t
    using u by (simp add: Initialize_def Let_def Setup_unavailable)
  ultimately show ?thesis
    by (simp add: Initialize_ducking_pref Initialize_duck_calls AudioDuckingManager_new_def)
qed

text \<open>
  With no device enumerator, \<open>Initialize\<close> on a new manager records nothing and sets no
  preference.
\<close>

theorem unavailable_subsystem_witness:
  "subsystem_unavailable unavailable_platform \<and>
   registrations (Initialize unavailable_platform AudioDuckingManager_new) = [] \<and>
   duck_calls (calls (Initialize unavailable_platform AudioDuckingManager_new)) = []"
  using unavailable_subsystem_does_nothing [of unavailable_platform AudioDuckingManager_new]
  by (simp add: subsystem_unavailable_def unavailable_platform_def new_simps)

text \<open>
  On the scenario with \<^verbatim>\<open>CoInitializeEx\<close> returning \<^verbatim>\<open>E_FAIL\<close>, a failure of COM
  initialization other than \<^verbatim>\<open>RPC_E_CHANGED_MODE\<close>, \<open>Initialize\<close> does not return having
  done nothing: both endpoints are registered and session 10 is opted out. And a manager
  that holds two registrations holds them still after \<open>Initialize\<close> on a platform without
  device enumerator: none is added, and the two are not zero.
\<close>

theorem COM_initialization_failure_counterexample:
  "FAILED (CoInitializeEx_hr (stub_platform E_FAIL scenario)) \<and>
   CoInitializeEx_hr (stub_platform E_FAIL scenario) \<noteq> RPC_E_CHANGED_MODE \<and>
   registrations (Initialize (stub_platform E_FAIL scenario) AudioDuckingManager_new) =
     [\<lparr>manager2 = Some 0, notifier = Some 0\<rparr>, \<lparr>manager2 = Some 1, notifier = Some 1\<rparr>] \<and>
   duck_calls (calls (Initialize (stub_platform E_FAIL scenario) AudioDuckingManager_new)) =
     [(10, True)] \<and>
   ducking_pref (Initialize (stub_platform E_FAIL scenario) AudioDuckingManager_new) 10 \<and>
   subsystem_unavailable unavailable_platform \<and>
   registrations (Initialize unavailable_platform
                    (Initialize (stub_platform S_OK scenario) AudioDuckingManager_new)) =
     [\<lparr>manager2 = Some 0, notifier = Some 0\<rparr>, \<lparr>manager2 = Some 1, notifier = Some 1\<rparr>]"
proof -
  have u: "subsystem_unavailable unavailable_platform"
    by (simp add: subsystem_unavailable_def unavailable_platform_def)
  then have "managers_of unavailable_platform = []"
    by (simp add: managers_of_def unavailable_collection)
  then have "registrations (Initialize unavailable_platform
                    (Initialize (stub_platform S_OK scenario) AudioDuckingManager_new)) =
     [\<lparr>manager2 = Some 0, notifier = Some 0\<rparr>, \<lparr>manager2 = Some 1, notifier = Some 1\<rparr>]"
    by (simp add: Initialize_registrations [of unavailable_platform] registrations_scenario)
  with u show ?thesis
    by (simp add: stub_platform_simps FAILED_iff not_SUCCEEDED_E_FAIL codes_distinct
        registrations_scenario Initialize_duck_calls Initialize_ducking_pref opted_out_scenario
        granted_def SUCCEEDED_S_OK new_simps)
qed

section \<open>Failures are skipped\<close>

lemma new_registrations_append:
  "new_registrations a (xs @ ys) =
     new_registrations a xs @
       new_registrations (a + length (filter (\<lambda>m'. m' \<noteq> None) xs)) ys"
proof (induction xs arbitrary: a)
  case Nil
  then show ?case by simp
next
  case (Cons x xs)
  then show ?case by (cases x) simp_all
qed

lemma new_registrations_skip:
  "new_registrations a (ms1 @ None # ms2) = new_registrations a (ms1 @ ms2)"
  by (simp add: new_registrations_append)

lemma subscribed_append [simp]:
  "subscribed (xs @ ys) = subscribed xs @ subscribed ys"
  by (simp add: subscribed_def)

lemma subscribed_refusing:
  "\<not> SUCCEEDED (RegisterSessionNotification_hr m) \<Longrightarrow> subscribed (Some m # ms) = subscribed ms"
  by (simp add: subscribed_def new_registration_def)

lemma opted_out_Cons:
  "opted_out my_pid (c # cs) =
     (case QueryInterface_out c of
        None \<Rightarrow> []
      | Some c2 \<Rightarrow> if pid_read c = Some my_pid then [c2] else []) @ opted_out my_pid cs"
  by (simp add: opted_out_def)

text \<open>
  C4. \<open>Initialize\<close> returns a state for every platform: the model, like the code, has no
  failure value for it; and whatever fails on the platform, a manager that is in order
  stays in order. When the subsystem is unavailable the state is as before, but for the
  calls logged and \<open>com_initialized\<close>. For each kind of failure at a step, what
  \<open>Initialize\<close> leaves is given by the endpoints and sessions of the platform other than
  the failing one, those after it included:

  \<^item> an endpoint that yields no session manager (\<^verbatim>\<open>Item\<close> or \<^verbatim>\<open>Activate\<close> fails or yields
    null): the registrations, the preference calls and the preferences are those of the
    endpoints before and after it;
  \<^item> an endpoint whose session manager refuses the subscription: the session managers
    registered are those subscribed before and after it, and its own sessions are
    opted out like those of the others;
  \<^item> a session whose process id cannot be read: the preference calls and the
    preferences are those of the sessions before and after it;
  \<^item> a session of this process that refuses the preference: the call on it is made, the
    calls on the sessions before and after it are made as well, and the preferences are
    those of the sessions before and after it.
\<close>

theorem failures_are_skipped:
  "(manager_ok s \<longrightarrow> manager_ok (Initialize p s)) \<and>
   (subsystem_unavailable p \<longrightarrow>
      agree (Initialize p s)
            (s\<lparr>com_initialized := com_initialized s \<or> SUCCEEDED (CoInitializeEx_hr p)\<rparr>)) \<and>
   (managers_of p = ms1 @ None # ms2 \<longrightarrow>
      registrations (Initialize p s) =
        registrations s @ new_registrations (next_notifier s) (ms1 @ ms2) \<and>
      duck_calls (calls (Initialize p s)) =
        duck_calls (calls s) @
          map (\<lambda>c2. (c2_id c2, True))
            (opted_out (GetCurrentProcessId p) (concat (map sessions_of (ms1 @ ms2)))) \<and>
      ducking_pref (Initialize p s) =
        (\<lambda>x. ducking_pref s x \<or>
              x \<in> set (granted (opted_out (GetCurrentProcessId p)
                      (concat (map sessions_of (ms1 @ ms2))))))) \<and>
   (managers_of p = ms1 @ Some m # ms2 \<and> \<not> SUCCEEDED (RegisterSessionNotification_hr m) \<longrightarrow>
      map manager2 (registrations (Initialize p s)) =
        map manager2 (registrations s) @ subscribed ms1 @ subscribed ms2 \<and>
      duck_calls (calls (Initialize p s)) =
        duck_calls (calls s) @
          map (\<lambda>c2. (c2_id c2, True))
            (opted_out (GetCurrentProcessId p)
               (concat (map sessions_of ms1) @ sessions_of (Some m) @
                concat (map sessions_of ms2)))) \<and>
   (existing_sessions p = cs1 @ c # cs2 \<and> pid_read c = None \<longrightarrow>
      duck_calls (calls (Initialize p s)) =
        duck_calls (calls s) @
          map (\<lambda>c2. (c2_id c2, True)) (opted_out (GetCurrentProcessId p) (cs1 @ cs2)) \<and>
      ducking_pref (Initialize p s) =
        (\<lambda>x. ducking_pref s x \<or>
              x \<in> set (granted (opted_out (GetCurrentProcessId p) (cs1 @ cs2))))) \<and>
   (existing_sessions p = cs1 @ c # cs2 \<and> QueryInterface_out c = Some c2 \<and>
    pid_read c = Some (GetCurrentProcessId p) \<and> \<not> SUCCEEDED (SetDuckingPreference_hr c2) \<longrightarrow>
      duck_calls (calls (Initialize p s)) =
        duck_calls (calls s) @
          map (\<lambda>c2. (c2_id c2, True)) (opted_out (GetCurrentProcessId p) cs1) @
          [(c2_id c2, True)] @
          map (\<lambda>c2. (c2_id c2, True)) (opted_out (GetCurrentProcessId p) cs2) \<and>
      ducking_pref (Initialize p s) =
        (\<lambda>x. ducking_pref s x \<or>
              x \<in> set (granted (opted_out (GetCurrentProcessId p) (cs1 @ cs2)))))"
proof -
  have 0: "agree (Initialize p s)
            (s\<lparr>com_initialized := com_initialized s \<or> SUCCEEDED (CoInitializeEx_hr p)\<rparr>)"
    if u: "subsystem_unavailable p"
  proof -
    have "existing_sessions p = []"
      using u by (simp add: existing_sessions_def managers_of_def unavailable_collection)
    moreover have "registrations (Initialize p s) = registrations s \<and>
        notifiers (Initialize p s) = notifiers s \<and>
        next_notifier (Initialize p s) = next_notifier s"
      using u by (simp add: Initialize_def Let_def Setup_unavailable)
    ultimately show ?thesis
      by (simp add: agree_def Initialize_com_initialized Initialize_ducking_pref
          Initialize_duck_calls)
  qed
  have 1: "registrations (Initialize p s) =
        registrations s @ new_registrations (next_notifier s) (ms1 @ ms2) \<and>
      duck_calls (calls (Initialize p s)) =
        duck_calls (calls s) @
          map (\<lambda>c2. (c2_id c2, True))
            (opted_out (GetCurrentProcessId p) (concat (map sessions_of (ms1 @ ms2)))) \<and>
      ducking_pref (Initialize p s) =
        (\<lambda>x. ducking_pref s x \<or>
              x \<in> set (granted (opted_out (GetCurrentProcessId p)
                      (concat (map sessions_of (ms1 @ ms2))))))"
    if "managers_of p = ms1 @ None # ms2"
    using that
    by (simp add: Initialize_registrations Initialize_duck_calls Initialize_ducking_pref
        existing_sessions_def new_registrations_skip)
  have 2: "map manager2 (registrations (Initialize p s)) =
        map manager2 (registrations s) @ subscribed ms1 @ subscribed ms2 \<and>
      duck_calls (calls (Initialize p s)) =
        duck_calls (calls s) @
          map (\<lambda>c2. (c2_id c2, True))
            (opted_out (GetCurrentProcessId p)
               (concat (map sessions_of ms1) @ sessions_of (Some m) @
                concat (map sessions_of ms2)))"
    if "managers_of p = ms1 @ Some m # ms2" "\<not> SUCCEEDED (RegisterSessionNotification_hr m)"
    using that
    by (simp add: Initialize_registrations Initialize_duck_calls existing_sessions_def
        manager2_new_registrations subscribed_refusing)
  have 3: "duck_calls (calls (Initialize p s)) =
        duck_calls (calls s) @
          map (\<lambda>c2. (c2_id c2, True)) (opted_out (GetCurrentProcessId p) (cs1 @ cs2)) \<and>
      ducking_pref (Initialize p s) =
        (\<lambda>x. ducking_pref s x \<or>
              x \<in> set (granted (opted_out (GetCurrentProcessId p) (cs1 @ cs2))))"
    if "existing_sessions p = cs1 @ c # cs2" "pid_read c = None"
    using that
    by (simp add: Initialize_duck_calls Initialize_ducking_pref opted_out_Cons
        split: option.splits)
  have 4: "duck_calls (calls (Initialize p s)) =
        duck_calls (calls s) @
          map (\<lambda>c2. (c2_id c2, True)) (opted_out (GetCurrentProcessId p) cs1) @
          [(c2_id c2, True)] @
          map (\<lambda>c2. (c2_id c2, True)) (opted_out (GetCurrentProcessId p) cs2) \<and>
      ducking_pref (Initialize p s) =
        (\<lambda>x. ducking_pref s x \<or>
              x \<in> set (granted (opted_out (GetCurrentProcessId p) (cs1 @ cs2))))"
    if "existing_sessions p = cs1 @ c # cs2" "QueryInterface_out c = Some c2"
      "pid_read c = Some (GetCurrentProcessId p)" "\<not> SUCCEEDED (SetDuckingPreference_hr c2)"
    using that
    by (simp add: Initialize_duck_calls Initialize_ducking_pref opted_out_Cons granted_def)
  from 0 1 2 3 4 manager_ok_Initialize [of s p] show ?thesis by blast
qed


text \<open>
  On the four endpoints with one failure of each kind, \<open>Initialize\<close> on a new manager
  registers endpoints 0 and 3 (the notifier allocated for endpoint 2 is given up), calls
  \<^verbatim>\<open>SetDuckingPreference\<close> on sessions 10, 12, 13 and 14, and leaves the preference set on
  10, 13 and 14. On a platform without device enumerator it changes nothing but
  \<open>com_initialized\<close>.
\<close>

theorem failures_are_skipped_witness:
  "managers_of (stub_platform S_OK faulty_endpoints) =
     [Some (stub_manager 0 [stub_session 10 self_pid, unreadable_session 11,
                            refused_session 12 self_pid, stub_session 13 self_pid]),
      None,
      Some (refusing_manager 2),
      Some (stub_manager 3 [stub_session 14 self_pid])] \<and>
   \<not> SUCCEEDED (RegisterSessionNotification_hr (refusing_manager 2)) \<and>
   pid_read (unreadable_session 11) = None \<and>
   pid_read (refused_session 12 self_pid) = Some self_pid \<and>
   registrations (Initialize (stub_platform S_OK faulty_endpoints) AudioDuckingManager_new) =
     [\<lparr>manager2 = Some 0, notifier = Some 0\<rparr>, \<lparr>manager2 = Some 3, notifier = Some 2\<rparr>] \<and>
   duck_calls (calls (Initialize (stub_platform S_OK faulty_endpoints) AudioDuckingManager_new)) =
     [(10, True), (12, True), (13, True), (14, True)] \<and>
   ducking_pref (Initialize (stub_platform S_OK faulty_endpoints) AudioDuckingManager_new) =
     (\<lambda>x. x = 10 \<or> x = 13 \<or> x = 14) \<and>
   manager_ok (Initialize (stub_platform S_OK faulty_endpoints) AudioDuckingManager_new) \<and>
   subsystem_unavailable unavailable_platform \<and>
   agree (Initialize unavailable_platform AudioDuckingManager_new)
         (AudioDuckingManager_new\<lparr>com_initialized := True\<rparr>)"
proof -
  let ?p = "stub_platform S_OK faulty_endpoints"
  let ?s = "Initialize ?p AudioDuckingManager_new"
  let ?m0 = "stub_manager 0 [stub_session 10 self_pid, unreadable_session 11,
                             refused_session 12 self_pid, stub_session 13 self_pid]"
  let ?m3 = "stub_manager 3 [stub_session 14 self_pid]"
  let ?c12 = "\<lparr>c2_id = 12, GetProcessId_hr = S_OK, GetProcessId_pid = self_pid,
               SetDuckingPreference_hr = E_FAIL\<rparr>"
  have ms: "managers_of ?p = [Some ?m0] @ None # [Some (refusing_manager 2), Some ?m3]"
    by (simp add: managers_of_faulty)
  have ms': "managers_of ?p = [Some ?m0, None] @ Some (refusing_manager 2) # [Some ?m3]"
    by (simp add: managers_of_faulty)
  have refuse: "\<not> SUCCEEDED (RegisterSessionNotification_hr (refusing_manager 2))"
    by (simp add: refusing_manager_simps not_SUCCEEDED_E_FAIL)
  have cs: "existing_sessions ?p =
      [stub_session 10 self_pid] @ unreadable_session 11 #
        [refused_session 12 self_pid, stub_session 13 self_pid, stub_session 14 self_pid]"
    by (simp add: existing_sessions_faulty)
  have cs': "existing_sessions ?p =
      [stub_session 10 self_pid, unreadable_session 11] @ refused_session 12 self_pid #
        [stub_session 13 self_pid, stub_session 14 self_pid]"
    by (simp add: existing_sessions_faulty)
  have unread: "pid_read (unreadable_session 11) = None"
    by (rule pid_read_unreadable_session)
  have refused: "QueryInterface_out (refused_session 12 self_pid) = Some ?c12"
      "pid_read (refused_session 12 self_pid) = Some (GetCurrentProcessId ?p)"
      "\<not> SUCCEEDED (SetDuckingPreference_hr ?c12)"
    by (simp_all add: refused_session_simps stub_platform_simps not_SUCCEEDED_E_FAIL)
  have u: "subsystem_unavailable unavailable_platform"
    by (simp add: subsystem_unavailable_def unavailable_platform_def)
  have regs: "registrations ?s =
      [\<lparr>manager2 = Some 0, notifier = Some 0\<rparr>, \<lparr>manager2 = Some 3, notifier = Some 2\<rparr>]"
    using failures_are_skipped [where p = ?p and s = AudioDuckingManager_new
        and ?ms1.0 = "[Some ?m0]" and ?ms2.0 = "[Some (refusing_manager 2), Some ?m3]"] ms
    by (simp add: new_simps new_registration_def stub_manager_simps refusing_manager_simps
        SUCCEEDED_S_OK not_SUCCEEDED_E_FAIL)
  have mgrs: "map manager2 (registrations ?s) = [Some 0, Some 3]"
    using failures_are_skipped [where p = ?p and s = AudioDuckingManager_new
        and ?ms1.0 = "[Some ?m0, None]" and ?ms2.0 = "[Some ?m3]"
        and m = "refusing_manager 2"] ms' refuse
    by (simp add: new_simps subscribed_def new_registration_def stub_manager_simps
        SUCCEEDED_S_OK)
  have ducks: "duck_calls (calls ?s) = [(10, True), (12, True), (13, True), (14, True)]"
    using failures_are_skipped [where p = ?p and s = AudioDuckingManager_new
        and ?cs1.0 = "[stub_session 10 self_pid, unreadable_session 11]"
        and c = "refused_session 12 self_pid"
        and ?cs2.0 = "[stub_session 13 self_pid, stub_session 14 self_pid]"
        and ?c2.0 = ?c12] cs' refused
    by (simp add: new_simps stub_platform_simps opted_out_Cons stub_session_out
        pid_read_stub_session unreadable_session_out pid_read_unreadable_session)
  have prefs: "ducking_pref ?s = (\<lambda>x. x = 10 \<or> x = 13 \<or> x = 14)"
    using failures_are_skipped [where p = ?p and s = AudioDuckingManager_new
        and ?cs1.0 = "[stub_session 10 self_pid]" and c = "unreadable_session 11"
        and ?cs2.0 = "[refused_session 12 self_pid, stub_session 13 self_pid,
                       stub_session 14 self_pid]"] cs unread
    by (auto simp add: new_simps stub_platform_simps opted_out_Cons stub_session_out
        pid_read_stub_session refused_session_simps granted_def SUCCEEDED_S_OK
        not_SUCCEEDED_E_FAIL fun_eq_iff)
  have ok: "manager_ok ?s"
    using failures_are_skipped [where p = ?p and s = AudioDuckingManager_new] manager_ok_new
    by blast
  have un: "agree (Initialize unavailable_platform AudioDuckingManager_new)
         (AudioDuckingManager_new\<lparr>com_initialized := True\<rparr>)"
    using failures_are_skipped [where p = unavailable_platform and s = AudioDuckingManager_new] u
    by (simp add: unavailable_platform_def SUCCEEDED_S_OK new_simps)
  from regs mgrs ducks prefs ok un u refuse unread refused(2) show ?thesis
    by (simp add: managers_of_faulty stub_platform_simps)
qed

section \<open>Teardown\<close>

text \<open>
  C3. A new manager is in order, and \<open>Initialize\<close> and the callback keep it so. When the
  manager is in order, the destructor runs to its end. For each
  registration, in order, it unsubscribes the notifier from the session manager, then
  releases the notifier, then releases the session manager; \<^verbatim>\<open>CoUninitialize\<close> follows if
  and only if \<open>com_initialized\<close> was set. Afterwards no registration is held and
  \<open>com_initialized\<close> is not set, and every notifier that was registered has had its
  \<open>Release\<close> run once.
\<close>

theorem destructor_teardown:
  "manager_ok AudioDuckingManager_new \<and>
   (manager_ok s \<longrightarrow> manager_ok (Initialize p s)) \<and>
   (manager_ok s \<and> OnSessionCreated current_pid new_session s = Some (hr, s1) \<longrightarrow>
      manager_ok s1) \<and>
   (manager_ok s \<longrightarrow>
      (\<exists>s'. AudioDuckingManager_destroy s = Some s' \<and>
         calls s' = calls s @ concat (map teardown_calls (registrations s)) @
                      (if com_initialized s then [Call_CoUninitialize] else []) \<and>
         registrations s' = [] \<and> \<not> com_initialized s' \<and>
         (\<forall>r\<in>set (registrations s).
            notifiers s' (the (notifier r)) =
              snd (Release (the (notifiers s (the (notifier r))))))))"
proof -
  have cb: "manager_ok s1"
    if "manager_ok s" "OnSessionCreated current_pid new_session s = Some (hr, s1)"
  proof -
    from that(2) have "registrations s1 = registrations s \<and> notifiers s1 = notifiers s \<and>
        next_notifier s1 = next_notifier s"
      by (auto simp: OnSessionCreated_def Let_def split: option.splits if_splits)
    with that(1) show ?thesis by (simp add: manager_ok_def live_def)
  qed
  have dt: "\<exists>s'. AudioDuckingManager_destroy s = Some s' \<and>
         calls s' = calls s @ concat (map teardown_calls (registrations s)) @
                      (if com_initialized s then [Call_CoUninitialize] else []) \<and>
         registrations s' = [] \<and> \<not> com_initialized s' \<and>
         (\<forall>r\<in>set (registrations s).
            notifiers s' (the (notifier r)) =
              snd (Release (the (notifiers s (the (notifier r))))))"
    if ok: "manager_ok s"
  proof -
    from ok have "list_all (live s) (registrations s)"
      by (auto simp: manager_ok_def list_all_iff)
    moreover have "distinct (map notifier (registrations s))"
      using ok by (simp add: manager_ok_def)
    ultimately obtain s2 where "release_registrations (registrations s) s = Some s2"
        "calls s2 = calls s @ concat (map teardown_calls (registrations s))"
        "com_initialized s2 = com_initialized s"
        "\<forall>r\<in>set (registrations s).
           notifiers s2 (the (notifier r)) = snd (Release (the (notifiers s (the (notifier r)))))"
      using release_registrations_ok [of s "registrations s"] by blast
    then show ?thesis
      by (simp add: AudioDuckingManager_destroy_def Let_def)
  qed
  from cb dt manager_ok_new manager_ok_Initialize [of s p] show ?thesis
    by blast
qed

text \<open>
  A new manager, after \<open>Initialize\<close> on the scenario and a callback for a null session, is
  in order; its destructor unsubscribes and releases for endpoint 0, then for endpoint 1,
  then tears COM down.
\<close>

theorem destructor_teardown_witness:
  "manager_ok AudioDuckingManager_new \<and>
   manager_ok (Initialize (stub_platform S_OK scenario) AudioDuckingManager_new) \<and>
   OnSessionCreated self_pid None
     (Initialize (stub_platform S_OK scenario) AudioDuckingManager_new) =
     Some (S_OK, Initialize (stub_platform S_OK scenario) AudioDuckingManager_new) \<and>
   (\<exists>s'. AudioDuckingManager_destroy
            (Initialize (stub_platform S_OK scenario) AudioDuckingManager_new) = Some s' \<and>
      calls s' = calls (Initialize (stub_platform S_OK scenario) AudioDuckingManager_new) @
        [Call_UnregisterSessionNotification 0 0, Call_Release (H_Notifier 0),
         Call_Release (H_SessionManager 0),
         Call_UnregisterSessionNotification 1 1, Call_Release (H_Notifier 1),
         Call_Release (H_SessionManager 1),
         Call_CoUninitialize] \<and>
      registrations s' = [] \<and> \<not> com_initialized s')"
proof -
  let ?s0 = "Initialize (stub_platform S_OK scenario) AudioDuckingManager_new"
  have new: "manager_ok AudioDuckingManager_new"
    using destructor_teardown by blast
  have ok: "manager_ok ?s0"
    using destructor_teardown [where s = AudioDuckingManager_new
        and p = "stub_platform S_OK scenario"] by blast
  have cb: "OnSessionCreated self_pid None ?s0 = Some (S_OK, ?s0)"
    by (simp add: OnSessionCreated_def)
  have "manager_ok ?s0"
    using destructor_teardown [where s = ?s0 and ?s1.0 = ?s0 and hr = S_OK
        and current_pid = self_pid and new_session = None] ok cb by blast
  then obtain s' where "AudioDuckingManager_destroy ?s0 = Some s'"
      "calls s' = calls ?s0 @ concat (map teardown_calls (registrations ?s0)) @
                    (if com_initialized ?s0 then [Call_CoUninitialize] else [])"
      "registrations s' = []" "\<not> com_initialized s'"
    using destructor_teardown [where s = ?s0] by blast
  then have "AudioDuckingManager_destroy ?s0 = Some s' \<and>
      calls s' = calls ?s0 @
        [Call_UnregisterSessionNotification 0 0, Call_Release (H_Notifier 0),
         Call_Release (H_SessionManager 0),
         Call_UnregisterSessionNotification 1 1, Call_Release (H_Notifier 1),
         Call_Release (H_SessionManager 1),
         Call_CoUninitialize] \<and>
      registrations s' = [] \<and> \<not> com_initialized s'"
    by (simp add: registrations_scenario teardown_calls_def Initialize_com_initialized
        stub_platform_simps SUCCEEDED_S_OK)
  with new ok cb show ?thesis by blast
qed

section \<open>Repeated initialization\<close>

text \<open>
  C7. Each call of \<open>Initialize\<close> appends one registration, with a notifier of its own, for
  every endpoint that is activated and subscribed in that call; \<open>N\<close> calls on the same
  platform add \<open>N\<close> times as many. A manager that is in order stays in order (every
  registration live, no notifier shared), and the destructor then tears every
  registration down by its own three calls.
\<close>

theorem repeated_Initialize_accumulates:
  "registrations (Initialize p s) =
     registrations s @ new_registrations (next_notifier s) (managers_of p) \<and>
   length (registrations ((Initialize p ^^ N) s)) =
     length (registrations s) + N * length (subscribed (managers_of p)) \<and>
   (manager_ok s \<longrightarrow>
      manager_ok ((Initialize p ^^ N) s) \<and>
      (\<exists>s'. AudioDuckingManager_destroy ((Initialize p ^^ N) s) = Some s' \<and>
         calls s' = calls ((Initialize p ^^ N) s) @
                      concat (map teardown_calls (registrations ((Initialize p ^^ N) s))) @
                      (if com_initialized ((Initialize p ^^ N) s) then [Call_CoUninitialize]
                       else []) \<and>
         registrations s' = []))"
proof -
  have ok: "manager_ok ((Initialize p ^^ N) s)" if "manager_ok s"
    using that by (induction N) (simp_all add: manager_ok_Initialize)
  show ?thesis
    using destroy_ok [OF ok] ok
    by (auto simp: Initialize_registrations funpow_Initialize_length)
qed

text \<open>
  Two calls on the scenario leave four registrations, all torn down by the destructor.
\<close>

theorem repeated_Initialize_accumulates_witness:
  "manager_ok AudioDuckingManager_new \<and>
   length (registrations
     ((Initialize (stub_platform S_OK scenario) ^^ 2) AudioDuckingManager_new)) = 4 \<and>
   manager_ok ((Initialize (stub_platform S_OK scenario) ^^ 2) AudioDuckingManager_new) \<and>
   (\<exists>s'. AudioDuckingManager_destroy
            ((Initialize (stub_platform S_OK scenario) ^^ 2) AudioDuckingManager_new) = Some s' \<and>
         registrations s' = [])"
  using repeated_Initialize_accumulates [of "stub_platform S_OK scenario"
      AudioDuckingManager_new 2] manager_ok_new
  by (auto simp: subscribed_scenario new_simps)

section \<open>The reference that activation returns\<close>

lemma manager_refs_simps [simp]:
  "manager_refs [] = []"
  "manager_refs (xs @ ys) = manager_refs xs @ manager_refs ys"
  "manager_refs (c # cs) = manager_ref c @ manager_refs cs"
  by (simp_all add: manager_refs_def)

lemma SafeRelease_manager_refs:
  "manager_refs (calls (SafeRelease pp s)) =
     manager_refs (calls s) @ (case pp of None \<Rightarrow> [] | Some h \<Rightarrow> manager_ref (Call_Release h))"
  by (simp add: SafeRelease_def split: option.splits)

lemma apply_session_manager_refs [simp]:
  "manager_refs (calls (apply_session my_pid e i s)) = manager_refs (calls s)"
  by (simp add: apply_session_def Let_def SafeRelease_manager_refs
      split: prod.splits option.splits)

lemma fold_apply_session_manager_refs [simp]:
  "manager_refs (calls (fold (apply_session my_pid e) js s)) = manager_refs (calls s)"
  by (induction js arbitrary: s) simp_all

lemma ApplyOptOut_manager_refs [simp]:
  "manager_refs (calls (ApplyOptOutToExistingSessions my_pid m' s)) = manager_refs (calls s)"
  by (simp add: ApplyOptOutToExistingSessions_def Let_def SafeRelease_manager_refs
      split: option.splits)

lemma Register_manager_refs:
  "manager_refs (calls (RegisterForNewSessions m' s)) =
     manager_refs (calls s) @
       map (\<lambda>r. (the (manager2 r), 1)) (new_registration m' (next_notifier s))"
  by (simp add: RegisterForNewSessions_def Let_def new_registration_def split: option.splits)

lemma Create_manager_refs:
  "manager_refs (calls (snd (CreateSessionManagerForDevice device s))) =
     manager_refs (calls s) @
       (case device of
          None \<Rightarrow> []
        | Some d \<Rightarrow>
            if SUCCEEDED (Activate_hr d) then []
            else (case Activate_out d of None \<Rightarrow> [] | Some m \<Rightarrow> [(mgr_id m, - 1)]))"
  by (simp add: CreateSessionManagerForDevice_def Let_def FAILED_iff SafeRelease_manager_refs
      split: option.splits)

lemma setup_device_manager_refs:
  "manager_refs (calls (setup_device my_pid c i s)) =
     manager_refs (calls s) @ stray_manager c i @
       map (\<lambda>r. (the (manager2 r), 1)) (new_registration (manager_at c i) (next_notifier s))"
  by (simp add: setup_device_def manager_at_def stray_manager_def Let_def case_prod_unfold
      Create_fst Create_manager_refs SafeRelease_manager_refs Register_manager_refs
      split: option.splits)

lemma fold_setup_device_manager_refs:
  "list_all (\<lambda>i. stray_manager c i = []) is \<Longrightarrow>
   manager_refs (calls (fold (setup_device my_pid c) is s)) =
     manager_refs (calls s) @
       map (\<lambda>r. (the (manager2 r), 1))
         (new_registrations (next_notifier s) (map (manager_at c) is))"
proof (induction "is" arbitrary: s)
  case Nil
  then show ?case by simp
next
  case (Cons i "is")
  then show ?case
    by (cases "manager_at c i")
      (simp_all add: setup_device_manager_refs setup_device_next_notifier)
qed

lemma Activate_contract_stray:
  "Activate_contract p \<Longrightarrow> collection_of p = Some c \<Longrightarrow>
   list_all (\<lambda>i. stray_manager c i = []) [0..<GetCount_devices c]"
  by (auto simp: Activate_contract_def stray_manager_def list_all_iff split: prod.splits option.splits)

lemma Setup_manager_refs:
  "Activate_contract p \<Longrightarrow>
   manager_refs (calls (SetupForAllRenderDevices p s)) =
     manager_refs (calls s) @
       map (\<lambda>r. (the (manager2 r), 1)) (new_registrations (next_notifier s) (managers_of p))"
proof (cases "collection_of p")
  case None
  then show ?thesis
    by (auto simp: SetupForAllRenderDevices_def Let_def managers_of_def collection_of_def
        FAILED_iff SafeRelease_manager_refs split: option.splits if_splits)
next
  case (Some c)
  assume "Activate_contract p"
  from Activate_contract_stray [OF this Some] Some show ?thesis
    by (auto simp: SetupForAllRenderDevices_def Let_def managers_of_def collection_of_def
        FAILED_iff SafeRelease_manager_refs fold_setup_device_manager_refs
        split: option.splits if_splits)
qed

lemma Initialize_manager_refs:
  "Activate_contract p \<Longrightarrow>
   manager_refs (calls (Initialize p s)) =
     manager_refs (calls s) @
       map (\<lambda>r. (the (manager2 r), 1)) (new_registrations (next_notifier s) (managers_of p))"
  by (simp add: Initialize_def Let_def Setup_manager_refs)

lemma teardown_manager_refs:
  "manager_refs (concat (map teardown_calls rs)) = map (\<lambda>r. (the (manager2 r), - 1)) rs"
  by (induction rs) (simp_all add: teardown_calls_def)

text \<open>
  After \<open>Initialize\<close> on a new manager and the destructor, on a platform whose \<^verbatim>\<open>Activate\<close>
  keeps COM's rule: the code has retained each session manager it registered once and
  released it once, and has made no other retain or release of a session manager. So
  the reference that each successful \<^verbatim>\<open>Activate\<close> returned to
  \<open>CreateSessionManagerForDevice\<close> is still held: one for every session manager
  activated, registered or not.
\<close>

theorem activation_reference_never_released:
  "Activate_contract p \<Longrightarrow>
   \<exists>s'. AudioDuckingManager_destroy (Initialize p AudioDuckingManager_new) = Some s' \<and>
        manager_refs (calls s') =
          map (\<lambda>r. (the (manager2 r), 1)) (new_registrations 0 (managers_of p)) @
          map (\<lambda>r. (the (manager2 r), - 1)) (new_registrations 0 (managers_of p)) \<and>
        manager_references_held p (calls s') =
          int (length (filter (\<lambda>m'. m' \<noteq> None) (managers_of p)))"
proof -
  assume a: "Activate_contract p"
  have ok: "manager_ok (Initialize p AudioDuckingManager_new)"
    by (simp add: manager_ok_Initialize manager_ok_new)
  have regs: "registrations (Initialize p AudioDuckingManager_new) =
      new_registrations 0 (managers_of p)"
    by (simp add: Initialize_registrations new_simps)
  from destroy_ok [OF ok] obtain s' where
    s': "AudioDuckingManager_destroy (Initialize p AudioDuckingManager_new) = Some s'"
      "calls s' = calls (Initialize p AudioDuckingManager_new) @
         concat (map teardown_calls (registrations (Initialize p AudioDuckingManager_new))) @
         (if com_initialized (Initialize p AudioDuckingManager_new) then [Call_CoUninitialize]
          else [])"
    by blast
  have refs: "manager_refs (calls s') =
      map (\<lambda>r. (the (manager2 r), 1)) (new_registrations 0 (managers_of p)) @
      map (\<lambda>r. (the (manager2 r), - 1)) (new_registrations 0 (managers_of p))"
    by (simp add: s'(2) Initialize_manager_refs [OF a] teardown_manager_refs regs new_simps)
  have "sum_list (map snd (manager_refs (calls s'))) = 0"
    by (simp add: refs o_def sum_list_triv)
  with s'(1) refs show ?thesis
    by (simp add: manager_references_held_def)
qed

text \<open>
  On the scenario both session managers are retained and released once, and the two
  references from their activation remain.
\<close>

theorem activation_reference_never_released_witness:
  "Activate_contract (stub_platform S_OK scenario) \<and>
   (\<exists>s'. AudioDuckingManager_destroy
            (Initialize (stub_platform S_OK scenario) AudioDuckingManager_new) = Some s' \<and>
         manager_refs (calls s') = [(0, 1), (1, 1), (0, - 1), (1, - 1)] \<and>
         manager_references_held (stub_platform S_OK scenario) (calls s') = 2)"
proof -
  have c: "collection_of (stub_platform S_OK scenario) = Some (stub_collection scenario)"
    by (simp add: collection_of_def stub_platform_def SUCCEEDED_S_OK)
  have a: "Activate_contract (stub_platform S_OK scenario)"
    by (simp add: Activate_contract_def c)
      (simp add: stub_collection_def scenario_def stub_endpoint_def SUCCEEDED_S_OK
        list_all_iff)
  from activation_reference_never_released [OF a] show ?thesis
    using a by (simp add: managers_of_scenario new_registration_def stub_manager_simps
        SUCCEEDED_S_OK)
qed

end
